theory Spec2Isabelle
  imports Main
begin

section \<open>Data model of the Janus stream panel\<close>

text \<open>
  The panel is one React function component (\<^verbatim>\<open>JanusStreamPanel\<close>). Its refs, its two
  pieces of React state, the browser's timer table and the calls it makes on
  collaborators (video element, Janus session, plugin handle) are collected in one
  record \<open>World\<close>; every callback of the component is a statement over that record.
  \<open>mounted\<close> tells whether the component is still in the tree: it is, until
  \<^verbatim>\<open>root.unmount()\<close> runs.
\<close>

datatype ConnectionState =
    DISCONNECTED | INITIALIZING | CONNECTING | ATTACHING
  | WATCHING | CONNECTED | STOPPED | DESTROYED

text \<open>The string value of each enum member, as declared in the source.\<close>

fun stateLabel :: "ConnectionState \<Rightarrow> string" where
  "stateLabel DISCONNECTED = ''Not connected''"
| "stateLabel INITIALIZING = ''Initializing Janus...''"
| "stateLabel CONNECTING = ''Connecting to Janus server...''"
| "stateLabel ATTACHING = ''Attaching to streaming plugin...''"
| "stateLabel WATCHING = ''Starting stream...''"
| "stateLabel CONNECTED = ''Connected''"
| "stateLabel STOPPED = ''Stream stopped''"
| "stateLabel DESTROYED = ''Connection destroyed''"

datatype ErrorSource = SrcJanus | SrcPlugin | SrcWebrtc | SrcPlayback | SrcStream

fun sourceName :: "ErrorSource \<Rightarrow> string" where
  "sourceName SrcJanus = ''janus''"
| "sourceName SrcPlugin = ''plugin''"
| "sourceName SrcWebrtc = ''webrtc''"
| "sourceName SrcPlayback = ''playback''"
| "sourceName SrcStream = ''stream''"

record ConnectionError =
  source :: ErrorSource
  message :: string

text \<open>\<^verbatim>\<open>PanelState\<close>: the settings. \<^verbatim>\<open>streamId\<close> is a JavaScript number that the
  panel only stores and forwards; an integer stands for it.\<close>

record StreamSettings =
  label :: string
  visible :: bool
  serverUrl :: string
  streamId :: int
  debug :: bool

record PanelState =
  stream :: StreamSettings

text \<open>The host's \<^verbatim>\<open>initialState\<close> read as \<^verbatim>\<open>Partial<PanelState>\<close>: \<open>None\<close> is a field
  that is absent, \<^verbatim>\<open>undefined\<close> or \<^verbatim>\<open>null\<close> (the three cases that \<^verbatim>\<open>?.\<close> and
  \<^verbatim>\<open>??\<close> do not tell apart).\<close>

record PartialStreamSettings =
  p_label :: "string option"
  p_visible :: "bool option"
  p_serverUrl :: "string option"
  p_streamId :: "int option"
  p_debug :: "bool option"

record PartialPanelState =
  p_stream :: "PartialStreamSettings option"

record VideoStats =
  width :: nat
  height :: nat
  bitrate :: string

record JanusStreamState =
  connectionState :: ConnectionState
  isConnected :: bool
  error :: "ConnectionError option"
  videoStats :: "VideoStats option"
  shouldReconnect :: bool

text \<open>\<^verbatim>\<open>Partial<JanusStreamState>\<close>, the argument of \<^verbatim>\<open>updateStreamState\<close>: \<open>None\<close> is a
  key the object literal does not have; \<open>Some None\<close> is a key given as \<^verbatim>\<open>null\<close>.\<close>

record StateUpdate =
  u_connectionState :: "ConnectionState option"
  u_isConnected :: "bool option"
  u_error :: "ConnectionError option option"
  u_videoStats :: "VideoStats option option"
  u_shouldReconnect :: "bool option"

definition noUpdate :: StateUpdate where
  "noUpdate = \<lparr> u_connectionState = None, u_isConnected = None, u_error = None,
                u_videoStats = None, u_shouldReconnect = None \<rparr>"

datatype LogType = LInfo | LWarn | LError

record LogEntry =
  logMessage :: string
  logType :: LogType

subsection \<open>Media objects\<close>

record Track =
  trackId :: string
  kind :: string

text \<open>A \<^verbatim>\<open>MediaStream\<close> is its ordered track set. \<^verbatim>\<open>addTrack\<close> does nothing when the
  track is already a member; \<^verbatim>\<open>removeTrack\<close> does nothing when it is not.\<close>

type_synonym MediaStream = "Track list"

definition getTracks :: "MediaStream \<Rightarrow> Track list" where
  "getTracks s = s"

definition getVideoTracks :: "MediaStream \<Rightarrow> Track list" where
  "getVideoTracks s = filter (\<lambda>t. kind t = ''video'') s"

definition addTrack :: "Track \<Rightarrow> MediaStream \<Rightarrow> MediaStream" where
  "addTrack t s = (if t \<in> set s then s else s @ [t])"

definition removeTrack :: "Track \<Rightarrow> MediaStream \<Rightarrow> MediaStream" where
  "removeTrack t s = filter (\<lambda>x. x \<noteq> t) s"

text \<open>The video element: the attached source and the intrinsic size the browser
  reports for the frames it decodes.\<close>

record VideoElement =
  srcObject :: "MediaStream option"
  videoWidth :: nat
  videoHeight :: nat

subsection \<open>Collaborators\<close>

text \<open>A thrown value, in its \<^verbatim>\<open>String(err)\<close> rendering.\<close>

type_synonym Exn = string

text \<open>A value caught from a promise or passed to an error callback (\<^verbatim>\<open>error: any\<close>):
  its \<^verbatim>\<open>message\<close> property when it has one, and its \<^verbatim>\<open>String(error)\<close> rendering.\<close>

record JsError =
  errMessage :: "string option"
  errString :: string

text \<open>The session object behind \<^verbatim>\<open>janusRef\<close>. The component calls \<^verbatim>\<open>isConnected\<close> and
  \<^verbatim>\<open>destroy\<close> on it at most once (in \<^verbatim>\<open>cleanupJanus\<close>, which then drops the reference),
  so what each call does is a field of the object: \<open>isConnectedFn = None\<close> when the
  property is not a function, otherwise the call's outcome; \<open>destroyThrows\<close> the value
  \<^verbatim>\<open>destroy\<close> throws, if it throws.\<close>

record Janus =
  janusServer :: string
  isConnectedFn :: "(Exn + bool) option"
  destroyThrows :: "Exn option"

record PluginHandle =
  handleId :: nat

datatype Request = ReqStop | ReqWatch int | ReqStart

text \<open>Calls made on collaborators, in the order they are made.\<close>

datatype Effect =
    VideoPause
  | VideoLoad
  | VideoPlay
  | TrackStop Track
  | PluginSend PluginHandle Request "string option"
  | PluginHangup PluginHandle
  | PluginCreateAnswer PluginHandle string
  | JanusNew string
  | JanusAttach Janus string
  | JanusDestroy Janus
  | JanusInit bool

text \<open>The values of one render that a callback created in that render closes over:
  \<^verbatim>\<open>streamState.isConnected\<close>, \<^verbatim>\<open>streamState.shouldReconnect\<close>,
  \<^verbatim>\<open>state.stream.streamId\<close>,
  \<^verbatim>\<open>state.stream.serverUrl\<close> and \<^verbatim>\<open>state.stream.debug\<close>.\<close>

record Env =
  envIsConnected :: bool
  envShouldReconnect :: bool
  envStreamId :: int
  envServerUrl :: string
  envDebug :: bool

text \<open>What the outside world answers during one callback: the object \<^verbatim>\<open>new Janus\<close>
  returns, the outcome of \<^verbatim>\<open>getBitrate\<close>, and the value \<^verbatim>\<open>Janus.init\<close> throws, if any.\<close>

record Ext =
  extNewJanus :: Janus
  extBitrate :: "Exn + string"
  extInitThrows :: "Exn option"

text \<open>The callbacks handed to \<^verbatim>\<open>setTimeout\<close>, one constructor per arrow function.\<close>

datatype TimerAction =
    ScrollLogs
  | PlayTrack string
  | RestartCleanup Env
  | RestartInit Env
  | ReconnectCleanup Env
  | ReconnectInit Env

record World =
  mounted :: bool
  videoRef :: "VideoElement option"
  janusRef :: "Janus option"
  streamingRef :: "PluginHandle option"
  bitrateTimerRef :: "nat option"
  streamState :: JanusStreamState
  logs :: "LogEntry list"
  timerCounter :: nat
  timeouts :: "(nat \<times> TimerAction) list"
  intervals :: "(nat \<times> string) list"
  reconnectCleanup :: "nat option"
  reconnectTimeoutVar :: "(nat \<times> nat) list"
  effects :: "Effect list"

section \<open>Statements\<close>

text \<open>A statement runs on a world and either completes or throws; the world it
  leaves behind keeps every mutation made before the throw.\<close>

type_synonym stmt = "World \<Rightarrow> Exn option \<times> World"

definition ok :: stmt where
  "ok w = (None, w)"

definition throw :: "Exn \<Rightarrow> stmt" where
  "throw e w = (Some e, w)"

definition eff :: "(World \<Rightarrow> World) \<Rightarrow> stmt" where
  "eff f w = (None, f w)"

text \<open>A block runs its statements in order and stops at the first that throws.\<close>

fun block :: "stmt list \<Rightarrow> stmt" where
  "block [] w = (None, w)"
| "block (s # ss) w =
     (case s w of
        (None, w') \<Rightarrow> block ss w'
      | (Some e, w') \<Rightarrow> (Some e, w'))"

text \<open>\<^verbatim>\<open>try { body } catch (err) { handler(err) }\<close>.\<close>

definition tryCatch :: "stmt \<Rightarrow> (Exn \<Rightarrow> stmt) \<Rightarrow> stmt" where
  "tryCatch body handler w =
     (case body w of
        (None, w') \<Rightarrow> (None, w')
      | (Some e, w') \<Rightarrow> handler e w')"

definition emit :: "Effect \<Rightarrow> stmt" where
  "emit x = eff (\<lambda>w. w\<lparr>effects := effects w @ [x]\<rparr>)"

subsection \<open>Timers\<close>

text \<open>\<^verbatim>\<open>window.setTimeout\<close> and \<^verbatim>\<open>window.setInterval\<close> return a fresh positive handle
  from one counter; \<^verbatim>\<open>clearTimeout\<close> and \<^verbatim>\<open>clearInterval\<close> drop the entry with that
  handle, if there is one.\<close>

definition setTimeout :: "TimerAction \<Rightarrow> World \<Rightarrow> nat \<times> World" where
  "setTimeout a w =
     (let h = Suc (timerCounter w)
      in (h, w\<lparr>timerCounter := h, timeouts := timeouts w @ [(h, a)]\<rparr>))"

definition setTimeoutStmt :: "TimerAction \<Rightarrow> stmt" where
  "setTimeoutStmt a w = (None, snd (setTimeout a w))"

definition clearTimeout :: "nat \<Rightarrow> stmt" where
  "clearTimeout h = eff (\<lambda>w. w\<lparr>timeouts := filter (\<lambda>p. fst p \<noteq> h) (timeouts w)\<rparr>)"

definition setInterval :: "string \<Rightarrow> World \<Rightarrow> nat \<times> World" where
  "setInterval mid w =
     (let h = Suc (timerCounter w)
      in (h, w\<lparr>timerCounter := h, intervals := intervals w @ [(h, mid)]\<rparr>))"

definition clearInterval :: "nat \<Rightarrow> stmt" where
  "clearInterval h = eff (\<lambda>w. w\<lparr>intervals := filter (\<lambda>p. fst p \<noteq> h) (intervals w)\<rparr>)"

section \<open>Settings store\<close>

text \<open>The initialiser of \<^verbatim>\<open>useState<PanelState>\<close>: \<open>field partialState f\<close> is
  \<^verbatim>\<open>partialState.stream?.f\<close> and \<open>nullish x d\<close> is \<^verbatim>\<open>x ?? d\<close>.\<close>

definition field :: "PartialPanelState \<Rightarrow> (PartialStreamSettings \<Rightarrow> 'a option) \<Rightarrow> 'a option" where
  "field partialState f = (case p_stream partialState of None \<Rightarrow> None | Some s \<Rightarrow> f s)"

definition nullish :: "'a option \<Rightarrow> 'a \<Rightarrow> 'a" where
  "nullish x d = (case x of None \<Rightarrow> d | Some v \<Rightarrow> v)"

definition initialPanelState :: "PartialPanelState \<Rightarrow> PanelState" where
  "initialPanelState partialState =
     \<lparr> stream =
         \<lparr> label = nullish (field partialState p_label) ''Janus Stream'',
           visible = nullish (field partialState p_visible) True,
           serverUrl = nullish (field partialState p_serverUrl) ''http://localhost:8088/janus'',
           streamId = nullish (field partialState p_streamId) 1,
           debug = nullish (field partialState p_debug) False \<rparr> \<rparr>"

definition initialStreamState :: JanusStreamState where
  "initialStreamState =
     \<lparr> connectionState = DISCONNECTED, isConnected = False, error = None,
       videoStats = None, shouldReconnect = False \<rparr>"

section \<open>Logging and stream state\<close>

text \<open>\<^verbatim>\<open>log\<close> appends the entry and schedules the zero-delay scroll of the log
  container.\<close>

definition log :: "string \<Rightarrow> LogType \<Rightarrow> stmt" where
  "log m t =
     block [
       eff (\<lambda>w. w\<lparr>logs := logs w @ [\<lparr>logMessage = m, logType = t\<rparr>]\<rparr>),
       setTimeoutStmt ScrollLogs ]"

text \<open>\<^verbatim>\<open>{ ...currentState, ...update }\<close>: a key the update has replaces the
  current value, also when it carries \<^verbatim>\<open>null\<close>.\<close>

definition spreadKey :: "'a option \<Rightarrow> 'a \<Rightarrow> 'a" where
  "spreadKey x cur = (case x of None \<Rightarrow> cur | Some v \<Rightarrow> v)"

definition mergeUpdate :: "JanusStreamState \<Rightarrow> StateUpdate \<Rightarrow> JanusStreamState" where
  "mergeUpdate currentState u =
     \<lparr> connectionState = spreadKey (u_connectionState u) (connectionState currentState),
       isConnected = spreadKey (u_isConnected u) (isConnected currentState),
       error = spreadKey (u_error u) (error currentState),
       videoStats = spreadKey (u_videoStats u) (videoStats currentState),
       shouldReconnect = spreadKey (u_shouldReconnect u) (shouldReconnect currentState) \<rparr>"

definition errorDiffers :: "ConnectionError \<Rightarrow> ConnectionError option \<Rightarrow> bool" where
  "errorDiffers e cur =
     (case cur of
        None \<Rightarrow> True
      | Some c \<Rightarrow> message e \<noteq> message c \<or> source e \<noteq> source c)"

definition updateStreamState :: "StateUpdate \<Rightarrow> stmt" where
  "updateStreamState u w =
     (let currentState = streamState w;
          newState = mergeUpdate currentState u
      in block [
           (case u_connectionState u of
              Some c \<Rightarrow>
                if c \<noteq> connectionState currentState
                then log (''Connection state: '' @ stateLabel c) LInfo
                else ok
            | None \<Rightarrow> ok),
           (case u_error u of
              Some (Some e) \<Rightarrow>
                if errorDiffers e (error currentState)
                then log (''Error ('' @ sourceName (source e) @ ''): '' @ message e) LError
                else ok
            | _ \<Rightarrow> ok),
           eff (\<lambda>w. w\<lparr>streamState := newState\<rparr>) ] w)"

section \<open>Stream control\<close>

definition setSrcObject :: "MediaStream option \<Rightarrow> stmt" where
  "setSrcObject s =
     eff (\<lambda>w. w\<lparr>videoRef := map_option (\<lambda>v. v\<lparr>srcObject := s\<rparr>) (videoRef w)\<rparr>)"

text \<open>\<^verbatim>\<open>stopStream\<close>. The old stream is emptied after the element has let go of it;
  the element held its only reference, so the emptied object is garbage and only the
  \<^verbatim>\<open>stop\<close> of each track is recorded.\<close>

definition stopStream :: stmt where
  "stopStream w =
     (case streamingRef w of
        None \<Rightarrow> ok w
      | Some h \<Rightarrow>
          block [
            log ''Stopping stream'' LInfo,
            (\<lambda>w. case videoRef w of
                   None \<Rightarrow> ok w
                 | Some v \<Rightarrow>
                     (let oldSrcObject = srcObject v
                      in block [
                           emit VideoPause,
                           setSrcObject None,
                           (case oldSrcObject of
                              None \<Rightarrow> ok
                            | Some s \<Rightarrow> block (map (\<lambda>t. emit (TrackStop t)) (getTracks s))) ] w)),
            emit (PluginSend h ReqStop None),
            emit (PluginHangup h) ] w)"

definition startStream :: "Env \<Rightarrow> stmt" where
  "startStream env w =
     (case streamingRef w of
        None \<Rightarrow>
          updateStreamState
            (noUpdate\<lparr> u_connectionState := Some DISCONNECTED,
                       u_error := Some (Some \<lparr> source = SrcPlugin,
                                               message = ''Streaming plugin not initialized'' \<rparr>) \<rparr>) w
      | Some h \<Rightarrow>
          block [
            updateStreamState (noUpdate\<lparr> u_connectionState := Some WATCHING \<rparr>),
            emit (PluginSend h (ReqWatch (envStreamId env)) None) ] w)"

text \<open>The three lines \<^verbatim>\<open>if (bitrateTimerRef.current) { clearInterval(...); ... = null }\<close>,
  which \<^verbatim>\<open>cleanupJanus\<close>, \<^verbatim>\<open>onremotetrack\<close> and \<^verbatim>\<open>oncleanup\<close> each contain. The test is
  JavaScript truthiness: a stored handle \<open>0\<close> would not be cleared.\<close>

definition clearBitrateTimer :: stmt where
  "clearBitrateTimer w =
     (case bitrateTimerRef w of
        None \<Rightarrow> ok w
      | Some h \<Rightarrow>
          if h \<noteq> 0
          then block [clearInterval h, eff (\<lambda>w. w\<lparr>bitrateTimerRef := None\<rparr>)] w
          else ok w)"

text \<open>The body of the \<^verbatim>\<open>try\<close> in \<^verbatim>\<open>cleanupJanus\<close>.\<close>

definition janusTryBody :: "Janus \<Rightarrow> stmt" where
  "janusTryBody j =
     block [
       (case isConnectedFn j of
          None \<Rightarrow> ok
        | Some (Inl e) \<Rightarrow> throw e
        | Some (Inr c) \<Rightarrow>
            if c then log ''Forcing Janus disconnection before cleanup'' LInfo else ok),
       emit (JanusDestroy j),
       (case destroyThrows j of
          Some e \<Rightarrow> throw e
        | None \<Rightarrow> ok) ]"

definition cleanupJanus :: stmt where
  "cleanupJanus =
     block [
       log ''Cleaning up Janus resources'' LInfo,
       clearBitrateTimer,
       (\<lambda>w. case janusRef w of
              None \<Rightarrow> ok w
            | Some j \<Rightarrow>
                block [
                  tryCatch (janusTryBody j)
                    (\<lambda>err. log (''Error during Janus cleanup: '' @ err) LWarn),
                  eff (\<lambda>w. w\<lparr>janusRef := None\<rparr>) ] w),
       eff (\<lambda>w. w\<lparr>streamingRef := None\<rparr>),
       (\<lambda>w. case videoRef w of
              None \<Rightarrow> ok w
            | Some v \<Rightarrow> block [setSrcObject None, emit VideoLoad] w),
       updateStreamState
         (noUpdate\<lparr> u_connectionState := Some DISCONNECTED,
                    u_isConnected := Some False,
                    u_videoStats := Some None \<rparr>) ]"

section \<open>Session callbacks\<close>

text \<open>\<^verbatim>\<open>initJanusConnection\<close> up to the constructor call; the callbacks it passes to
  the constructor follow, one definition each.\<close>

definition initJanusConnection :: "Env \<Rightarrow> Ext \<Rightarrow> stmt" where
  "initJanusConnection env ext =
     block [
       log ''Initializing new Janus connection'' LInfo,
       updateStreamState
         (noUpdate\<lparr> u_connectionState := Some CONNECTING,
                    u_isConnected := Some False,
                    u_error := Some None \<rparr>),
       emit (JanusNew (envServerUrl env)),
       eff (\<lambda>w. w\<lparr>janusRef := Some (extNewJanus ext)\<rparr>) ]"

text \<open>Session \<^verbatim>\<open>success\<close>; \<open>rnd\<close> is the value of \<^verbatim>\<open>Janus.randomString(12)\<close>.\<close>

definition sessionSuccess :: "string \<Rightarrow> stmt" where
  "sessionSuccess rnd =
     block [
       log ''Connected to Janus server, attaching plugin'' LInfo,
       updateStreamState (noUpdate\<lparr> u_connectionState := Some ATTACHING \<rparr>),
       (\<lambda>w. case janusRef w of
              None \<Rightarrow> ok w
            | Some j \<Rightarrow> emit (JanusAttach j (''foxglovestreamingtest-'' @ rnd)) w) ]"

definition sessionError :: "string \<Rightarrow> stmt" where
  "sessionError err =
     updateStreamState
       (noUpdate\<lparr> u_connectionState := Some DISCONNECTED,
                  u_error := Some (Some \<lparr> source = SrcJanus, message = err \<rparr>) \<rparr>)"

definition sessionDestroyed :: stmt where
  "sessionDestroyed =
     updateStreamState
       (noUpdate\<lparr> u_connectionState := Some DESTROYED,
                  u_isConnected := Some False,
                  u_videoStats := Some None \<rparr>)"

definition attachSuccess :: "Env \<Rightarrow> PluginHandle \<Rightarrow> stmt" where
  "attachSuccess env pluginHandle =
     block [
       log ''Successfully attached to streaming plugin'' LInfo,
       eff (\<lambda>w. w\<lparr>streamingRef := Some pluginHandle\<rparr>),
       startStream env ]"

definition attachError :: "string \<Rightarrow> stmt" where
  "attachError err =
     updateStreamState
       (noUpdate\<lparr> u_connectionState := Some DISCONNECTED,
                  u_error := Some (Some \<lparr> source = SrcPlugin, message = err \<rparr>) \<rparr>)"

text \<open>\<^verbatim>\<open>error.message || String(error)\<close>.\<close>

definition errText :: "JsError \<Rightarrow> string" where
  "errText err =
     (case errMessage err of
        None \<Rightarrow> errString err
      | Some m \<Rightarrow> if m \<noteq> [] then m else errString err)"

text \<open>\<^verbatim>\<open>onmessage\<close>: \<open>msgError\<close> is \<^verbatim>\<open>msg["error"]\<close>, \<open>jsep\<close> the offer when there is one.\<close>

definition onmessage :: "string option \<Rightarrow> string option \<Rightarrow> stmt" where
  "onmessage msgError jsep w =
     (let rest =
            (case jsep of
               None \<Rightarrow> ok w
             | Some offer \<Rightarrow>
                 (case streamingRef w of
                    None \<Rightarrow> ok w
                  | Some h \<Rightarrow> emit (PluginCreateAnswer h offer) w))
      in case msgError of
           None \<Rightarrow> rest
         | Some e \<Rightarrow>
             if e \<noteq> []
             then updateStreamState
                    (noUpdate\<lparr> u_error := Some (Some \<lparr> source = SrcStream, message = e \<rparr>) \<rparr>) w
             else rest)"

definition answerSuccess :: "string \<Rightarrow> stmt" where
  "answerSuccess jsep w =
     (case streamingRef w of
        None \<Rightarrow> ok w
      | Some h \<Rightarrow> emit (PluginSend h ReqStart (Some jsep)) w)"

definition answerError :: "JsError \<Rightarrow> stmt" where
  "answerError err =
     updateStreamState
       (noUpdate\<lparr> u_connectionState := Some DISCONNECTED,
                  u_error := Some (Some \<lparr> source = SrcWebrtc, message = errText err \<rparr>) \<rparr>)"

subsection \<open>Remote tracks and playback\<close>

text \<open>\<^verbatim>\<open>onremotetrack\<close>. \<^verbatim>\<open>videoRef.current!\<close> on an unmounted element is a
  \<^verbatim>\<open>TypeError\<close>. \<^verbatim>\<open>Janus.attachMediaStream\<close> assigns the element's \<^verbatim>\<open>srcObject\<close>.
  \<^verbatim>\<open>streamState.isConnected\<close> is the value the enclosing render closed over.\<close>

definition onremotetrack :: "Env \<Rightarrow> Track \<Rightarrow> string \<Rightarrow> bool \<Rightarrow> stmt" where
  "onremotetrack env track mid on w =
     (if \<not> on then
        block [
          (if kind track = ''video''
           then block [
                  updateStreamState
                    (noUpdate\<lparr> u_connectionState := Some STOPPED,
                               u_isConnected := Some False,
                               u_videoStats := Some None \<rparr>),
                  clearBitrateTimer ]
           else ok),
          log (''Track '' @ trackId track @ '' is off, skipping processing'') LInfo ] w
      else if kind track = ''video'' then
        block [
          log (''Received video track: '' @ trackId track) LInfo,
          (\<lambda>w. case videoRef w of
                 None \<Rightarrow> throw ''TypeError: videoRef.current is null'' w
               | Some v \<Rightarrow>
                   (case srcObject v of
                      None \<Rightarrow> setSrcObject (Some []) w
                    | Some s \<Rightarrow> ok w)),
          (\<lambda>w. case videoRef w of
                 None \<Rightarrow> throw ''TypeError: videoRef.current is null'' w
               | Some v \<Rightarrow>
                   (case srcObject v of
                      None \<Rightarrow> throw ''TypeError: stream is null'' w
                    | Some mediaStream \<Rightarrow>
                        (let existingVideoTracks = getVideoTracks mediaStream;
                             removed = foldl (\<lambda>s t. removeTrack t s) mediaStream existingVideoTracks
                         in setSrcObject (Some (addTrack track removed)) w))),
          (if \<not> envIsConnected env
           then block [
                  log (''Playing video track: '' @ trackId track) LInfo,
                  setTimeoutStmt (PlayTrack mid) ]
           else ok) ] w
      else ok w)"

text \<open>The callback of the 100 ms timeout: \<^verbatim>\<open>play()\<close> is called and its promise settles
  later, through \<open>playThen\<close> or \<open>playCatch\<close>.\<close>

definition playTrack :: "string \<Rightarrow> stmt" where
  "playTrack mid w =
     (case videoRef w of
        Some v \<Rightarrow> emit VideoPlay w
      | None \<Rightarrow> log ''Video element not found, cannot play track'' LError w)"

definition updateBitrate :: "string \<Rightarrow> Ext \<Rightarrow> stmt" where
  "updateBitrate mid ext w =
     (case videoRef w of
        None \<Rightarrow> ok w
      | Some v \<Rightarrow>
          if videoWidth v \<noteq> 0 then
            (case streamingRef w of
               None \<Rightarrow> ok w
             | Some h \<Rightarrow>
                 tryCatch
                   (case extBitrate ext of
                      Inl e \<Rightarrow> throw e
                    | Inr b \<Rightarrow>
                        updateStreamState
                          (noUpdate\<lparr> u_videoStats :=
                              Some (Some \<lparr> width = videoWidth v, height = videoHeight v,
                                            bitrate = b \<rparr>) \<rparr>))
                   (\<lambda>e. log (''Error getting bitrate: '' @ e) LWarn) w)
          else ok w)"

definition playThen :: "string \<Rightarrow> Ext \<Rightarrow> stmt" where
  "playThen mid ext =
     block [
       updateStreamState
         (noUpdate\<lparr> u_connectionState := Some CONNECTED,
                    u_isConnected := Some True,
                    u_error := Some None \<rparr>),
       (\<lambda>w. case bitrateTimerRef w of
              None \<Rightarrow>
                block [
                  updateBitrate mid ext,
                  (\<lambda>w. case setInterval mid w of
                         (h, w') \<Rightarrow> ok (w'\<lparr>bitrateTimerRef := Some h\<rparr>)) ] w
            | Some h \<Rightarrow> ok w) ]"

text \<open>\<^verbatim>\<open>String.prototype.includes\<close>.\<close>

fun startsWith :: "'a list \<Rightarrow> 'a list \<Rightarrow> bool" where
  "startsWith s [] = True"
| "startsWith [] (p # ps) = False"
| "startsWith (c # cs) (p # ps) = (c = p \<and> startsWith cs ps)"

fun str_includes :: "'a list \<Rightarrow> 'a list \<Rightarrow> bool" where
  "str_includes [] sub = startsWith [] sub"
| "str_includes (c # cs) sub = (startsWith (c # cs) sub \<or> str_includes cs sub)"

definition interruptedPhrase :: string where
  "interruptedPhrase = ''interrupted by a new load request''"

definition playCatch :: "JsError \<Rightarrow> stmt" where
  "playCatch err =
     (if (case errMessage err of
            None \<Rightarrow> False
          | Some m \<Rightarrow> m \<noteq> [] \<and> str_includes m interruptedPhrase)
      then log ''Play interrupted, will retry automatically'' LWarn
      else updateStreamState
             (noUpdate\<lparr> u_connectionState := Some DISCONNECTED,
                        u_error := Some (Some \<lparr> source = SrcPlayback,
                                                message = errText err \<rparr>) \<rparr>))"

definition oncleanup :: stmt where
  "oncleanup =
     block [
       clearBitrateTimer,
       (\<lambda>w. case videoRef w of
              None \<Rightarrow> ok w
            | Some v \<Rightarrow> setSrcObject None w),
       updateStreamState
         (noUpdate\<lparr> u_connectionState := Some STOPPED,
                    u_isConnected := Some False,
                    u_videoStats := Some None \<rparr>) ]"

section \<open>Effects, restart and timers\<close>

text \<open>The hooks that \<^verbatim>\<open>setupJanusLogHandlers\<close> installs on the library
  (\<^verbatim>\<open>Janus.log\<close>, \<^verbatim>\<open>Janus.error\<close>, \<^verbatim>\<open>Janus.warn\<close>); \<open>args\<close> is \<^verbatim>\<open>args.join(' ')\<close>.\<close>

definition janusLog :: "Env \<Rightarrow> string \<Rightarrow> stmt" where
  "janusLog env args = (if envDebug env then log (''[Janus] '' @ args) LInfo else ok)"

definition janusError :: "string \<Rightarrow> stmt" where
  "janusError args = log (''[Janus Error] '' @ args) LError"

definition janusWarn :: "Env \<Rightarrow> string \<Rightarrow> stmt" where
  "janusWarn env args = (if envDebug env then log (''[Janus Warning] '' @ args) LWarn else ok)"

text \<open>The mount effect. \<^verbatim>\<open>Janus.init\<close> either throws or calls its \<^verbatim>\<open>callback\<close> before it
  returns, so the callback runs inside the \<^verbatim>\<open>try\<close>. The effect's cleanup is
  \<open>cleanupJanus\<close>.\<close>

definition mountEffect :: "Env \<Rightarrow> Ext \<Rightarrow> stmt" where
  "mountEffect env ext =
     block [
       updateStreamState (noUpdate\<lparr> u_connectionState := Some INITIALIZING \<rparr>),
       tryCatch
         (block [
            emit (JanusInit (envDebug env)),
            (case extInitThrows ext of
               Some e \<Rightarrow> throw e
             | None \<Rightarrow>
                 block [
                   log ''Janus library initialized'' LInfo,
                   initJanusConnection env ext ]) ])
         (\<lambda>err.
            block [
              log (''Failed to initialize Janus library: '' @ err) LError,
              updateStreamState
                (noUpdate\<lparr> u_connectionState := Some DISCONNECTED,
                           u_error := Some (Some \<lparr> source = SrcJanus, message = err \<rparr>) \<rparr>) ]) ]"

text \<open>The reconnect effect. React keeps the function an effect returns and calls it
  before the effect runs again and when the component unmounts: \<open>reconnectCleanup\<close> is
  that stored function, \<open>Some h\<close> for the closure whose \<^verbatim>\<open>timeout\<close> variable holds \<open>h\<close>
  and \<open>None\<close> for \<^verbatim>\<open>() => { }\<close>. The closure's second variable, \<^verbatim>\<open>reconnectTimeout\<close>, is
  assigned later by the first timeout's callback; \<open>reconnectTimeoutVar\<close> maps \<open>h\<close> to
  it once it is assigned.\<close>

definition reconnectEffectBody :: "Env \<Rightarrow> stmt" where
  "reconnectEffectBody env =
     (if envShouldReconnect env then
        block [
          log ''Reconnecting due to settings change'' LInfo,
          updateStreamState (noUpdate\<lparr> u_shouldReconnect := Some False \<rparr>),
          stopStream,
          (\<lambda>w. case setTimeout (ReconnectCleanup env) w of
                 (h, w') \<Rightarrow> ok (w'\<lparr>reconnectCleanup := Some h\<rparr>)) ]
      else eff (\<lambda>w. w\<lparr>reconnectCleanup := None\<rparr>))"

definition runReconnectCleanup :: stmt where
  "runReconnectCleanup w =
     (case reconnectCleanup w of
        None \<Rightarrow> ok w
      | Some h \<Rightarrow>
          block [
            clearTimeout h,
            (case map_of (reconnectTimeoutVar w) h of
               None \<Rightarrow> ok
             | Some h2 \<Rightarrow> if h2 \<noteq> 0 then clearTimeout h2 else ok),
            eff (\<lambda>w. w\<lparr>reconnectCleanup := None\<rparr>) ] w)"

definition reconnectEffect :: "Env \<Rightarrow> stmt" where
  "reconnectEffect env = block [runReconnectCleanup, reconnectEffectBody env]"

text \<open>The callback of the effect's 500 ms timeout, which runs under the handle \<open>h\<close>.\<close>

definition reconnectCleanupFired :: "nat \<Rightarrow> Env \<Rightarrow> stmt" where
  "reconnectCleanupFired h env =
     block [
       cleanupJanus,
       (\<lambda>w. case setTimeout (ReconnectInit env) w of
              (h2, w') \<Rightarrow> ok (w'\<lparr>reconnectTimeoutVar := (h, h2) # reconnectTimeoutVar w'\<rparr>)) ]"

text \<open>\<^verbatim>\<open>handleRestartStream\<close> and the callback of its 500 ms timeout. Neither handle
  returned by \<^verbatim>\<open>setTimeout\<close> is kept.\<close>

definition handleRestartStream :: "Env \<Rightarrow> stmt" where
  "handleRestartStream env =
     block [
       log ''Manual stream restart requested'' LInfo,
       stopStream,
       setTimeoutStmt (RestartCleanup env) ]"

definition restartCleanupFired :: "Env \<Rightarrow> stmt" where
  "restartCleanupFired env =
     block [
       log ''Performing full Janus reconnection'' LInfo,
       cleanupJanus,
       setTimeoutStmt (RestartInit env) ]"

text \<open>The browser runs a pending timeout once and forgets it; a handle that is not
  pending (never set, cleared or already run) does nothing. \<open>ScrollLogs\<close> only moves
  the scroll position of the log container.\<close>

definition runTimerAction :: "nat \<Rightarrow> TimerAction \<Rightarrow> Ext \<Rightarrow> stmt" where
  "runTimerAction h a ext =
     (case a of
        ScrollLogs \<Rightarrow> ok
      | PlayTrack mid \<Rightarrow> playTrack mid
      | RestartCleanup env \<Rightarrow> restartCleanupFired env
      | RestartInit env \<Rightarrow> initJanusConnection env ext
      | ReconnectCleanup env \<Rightarrow> reconnectCleanupFired h env
      | ReconnectInit env \<Rightarrow> initJanusConnection env ext)"

definition fireTimeout :: "nat \<Rightarrow> Ext \<Rightarrow> stmt" where
  "fireTimeout h ext w =
     (case map_of (timeouts w) h of
        None \<Rightarrow> ok w
      | Some a \<Rightarrow> block [clearTimeout h, runTimerAction h a ext] w)"

definition fireInterval :: "nat \<Rightarrow> Ext \<Rightarrow> stmt" where
  "fireInterval h ext w =
     (case map_of (intervals w) h of
        None \<Rightarrow> ok w
      | Some mid \<Rightarrow> updateBitrate mid ext w)"

text \<open>Unmounting (\<^verbatim>\<open>root.unmount()\<close>): React removes the component from the tree,
  detaches the element from \<^verbatim>\<open>videoRef\<close> and runs the cleanup of each effect. From
  then on the component is gone: what its callbacks still ask of React state is
  dropped (see \<open>step\<close>).\<close>

definition unmount :: stmt where
  "unmount =
     block [
       eff (\<lambda>w. w\<lparr>mounted := False\<rparr>),
       eff (\<lambda>w. w\<lparr>videoRef := None\<rparr>),
       cleanupJanus,
       runReconnectCleanup ]"

text \<open>\<^verbatim>\<open>actionHandler\<close>, as far as it touches the controller: the edited settings
  object lives in the settings store and reaches the callbacks above only through
  the values a render closes over. \<open>value\<close> is the edited value as the template
  literal prints it.\<close>

datatype SettingsTreeAction = Update "string list" string | Perform

definition actionHandler :: "SettingsTreeAction \<Rightarrow> stmt" where
  "actionHandler a =
     (case a of
        Perform \<Rightarrow> ok
      | Update path val \<Rightarrow>
          if 1 < length path \<and> (path ! 1 = ''serverUrl'' \<or> path ! 1 = ''streamId'')
          then block [
                 log (''Settings changed, will reconnect with new '' @ path ! 1 @ '': '' @ val) LInfo,
                 updateStreamState (noUpdate\<lparr> u_shouldReconnect := Some True \<rparr>) ]
          else ok)"

section \<open>The panel as a transition system\<close>

text \<open>Everything that can happen to the mounted component: a callback is invoked by
  React, by the Janus library, by the browser's timers or by a settled promise. The
  arguments are whatever the caller passes, so the events over-approximate the runs
  of the real panel.\<close>

datatype Event =
    EvAction SettingsTreeAction
  | EvMountEffect Env Ext
  | EvMountCleanup
  | EvReconnectEffect Env
  | EvRestartClick Env
  | EvUnmount
  | EvJanusLog Env string
  | EvJanusError string
  | EvJanusWarn Env string
  | EvSessionSuccess string
  | EvSessionError string
  | EvSessionDestroyed
  | EvAttachSuccess Env PluginHandle
  | EvAttachError string
  | EvMessage "string option" "string option"
  | EvAnswerSuccess string
  | EvAnswerError JsError
  | EvRemoteTrack Env Track string bool
  | EvPlayThen string Ext
  | EvPlayCatch JsError
  | EvCleanup
  | EvTimeout nat Ext
  | EvInterval nat Ext
  | EvVideoSize nat nat

definition handler :: "Event \<Rightarrow> stmt" where
  "handler e =
     (case e of
        EvAction a \<Rightarrow> actionHandler a
      | EvMountEffect env ext \<Rightarrow> mountEffect env ext
      | EvMountCleanup \<Rightarrow> cleanupJanus
      | EvReconnectEffect env \<Rightarrow> reconnectEffect env
      | EvRestartClick env \<Rightarrow> handleRestartStream env
      | EvUnmount \<Rightarrow> unmount
      | EvJanusLog env args \<Rightarrow> janusLog env args
      | EvJanusError args \<Rightarrow> janusError args
      | EvJanusWarn env args \<Rightarrow> janusWarn env args
      | EvSessionSuccess rnd \<Rightarrow> sessionSuccess rnd
      | EvSessionError err \<Rightarrow> sessionError err
      | EvSessionDestroyed \<Rightarrow> sessionDestroyed
      | EvAttachSuccess env h \<Rightarrow> attachSuccess env h
      | EvAttachError err \<Rightarrow> attachError err
      | EvMessage msgError jsep \<Rightarrow> onmessage msgError jsep
      | EvAnswerSuccess jsep \<Rightarrow> answerSuccess jsep
      | EvAnswerError err \<Rightarrow> answerError err
      | EvRemoteTrack env track mid on \<Rightarrow> onremotetrack env track mid on
      | EvPlayThen mid ext \<Rightarrow> playThen mid ext
      | EvPlayCatch err \<Rightarrow> playCatch err
      | EvCleanup \<Rightarrow> oncleanup
      | EvTimeout h ext \<Rightarrow> fireTimeout h ext
      | EvInterval h ext \<Rightarrow> fireInterval h ext
      | EvVideoSize x y \<Rightarrow>
          eff (\<lambda>w. w\<lparr>videoRef :=
                 map_option (\<lambda>v. v\<lparr>videoWidth := x, videoHeight := y\<rparr>) (videoRef w)\<rparr>))"

text \<open>An exception that leaves a callback is reported by the browser; the component
  carries on from the world the callback left. The stream state and the log are
  React state: React applies \<^verbatim>\<open>setStreamState\<close> and \<^verbatim>\<open>setLogs\<close> only while the component
  is in the tree, so a callback that runs when the component is gone (the effect
  cleanups of the unmount itself included) leaves both as they were. Refs, timers
  (the scroll timeouts of logging among them) and calls on collaborators are outside
  React and take effect all the same.\<close>

definition step :: "World \<Rightarrow> Event \<Rightarrow> World" where
  "step w e =
     (let w' = snd (handler e w)
      in if mounted w' then w' else w'\<lparr>streamState := streamState w, logs := logs w\<rparr>)"

definition run :: "World \<Rightarrow> Event list \<Rightarrow> World" where
  "run w es = foldl step w es"

text \<open>The component right after its first render, with the video element \<open>v\<close>
  mounted.\<close>

definition initialWorld :: "VideoElement \<Rightarrow> World" where
  "initialWorld v =
     \<lparr> mounted = True, videoRef = Some v, janusRef = None, streamingRef = None,
       bitrateTimerRef = None,
       streamState = initialStreamState, logs = [], timerCounter = 0, timeouts = [],
       intervals = [], reconnectCleanup = None, reconnectTimeoutVar = [], effects = [] \<rparr>"

subsection \<open>The bitrate sampler\<close>

text \<open>The interval timers that are live are exactly the one whose handle
  \<^verbatim>\<open>bitrateTimerRef\<close> stores, if it stores one; a stored handle is never \<open>0\<close>.\<close>

definition timerInv :: "World \<Rightarrow> bool" where
  "timerInv w =
     (case bitrateTimerRef w of
        None \<Rightarrow> intervals w = []
      | Some h \<Rightarrow> h \<noteq> 0 \<and> map fst (intervals w) = [h])"

subsection \<open>Sequences of track events\<close>

text \<open>An \<^verbatim>\<open>onremotetrack\<close> call for an active track, given the closure it runs in, the
  track and its \<^verbatim>\<open>mid\<close>; and the video tracks of the stream attached to the video
  element (\<open>None\<close> when there is no element or no stream).\<close>

fun trackEvent :: "Env \<times> Track \<times> string \<Rightarrow> Event" where
  "trackEvent (env, track, mid) = EvRemoteTrack env track mid True"

definition attachedVideoTracks :: "World \<Rightarrow> Track list option" where
  "attachedVideoTracks w =
     (case videoRef w of
        None \<Rightarrow> None
      | Some v \<Rightarrow> map_option getVideoTracks (srcObject v))"

subsection \<open>What a caller can observe of the controller\<close>

text \<open>The end state of the controller: the session handle, the plugin handle, the
  bitrate timer handle with the interval timers that are live, the video element
  with its source, and the stream state (connection state, connected flag, error,
  stats, reconnect flag). The diagnostic log, the scroll timeouts that logging
  schedules and the record of calls already made are history, not state.\<close>

definition observable ::
  "World \<Rightarrow> Janus option \<times> PluginHandle option \<times> nat option \<times> (nat \<times> string) list \<times>
     VideoElement option \<times> JanusStreamState" where
  "observable w =
     (janusRef w, streamingRef w, bitrateTimerRef w, intervals w, videoRef w, streamState w)"

subsection \<open>Sample inputs\<close>

text \<open>A freshly mounted panel whose video element has no source yet, and the closure
  of its first render with the default settings.\<close>

definition world0 :: World where
  "world0 = initialWorld \<lparr> srcObject = None, videoWidth = 0, videoHeight = 0 \<rparr>"

definition env0 :: Env where
  "env0 = \<lparr> envIsConnected = False, envShouldReconnect = False, envStreamId = 1,
            envServerUrl = ''http://localhost:8088/janus'', envDebug = False \<rparr>"

text \<open>A session object, a video track, and a panel that is connected and playing
  that track with its bitrate sampler running.\<close>

definition sampleJanus :: Janus where
  "sampleJanus =
     \<lparr> janusServer = ''http://localhost:8088/janus'', isConnectedFn = Some (Inr True),
       destroyThrows = None \<rparr>"

definition sampleTrack :: Track where
  "sampleTrack = \<lparr> trackId = ''v1'', kind = ''video'' \<rparr>"

definition connectedWorld :: World where
  "connectedWorld =
     \<lparr> mounted = True,
       videoRef = Some \<lparr> srcObject = Some [sampleTrack], videoWidth = 640, videoHeight = 480 \<rparr>,
       janusRef = Some sampleJanus,
       streamingRef = Some \<lparr> handleId = 1 \<rparr>,
       bitrateTimerRef = Some 3,
       streamState =
         \<lparr> connectionState = CONNECTED, isConnected = True, error = None,
           videoStats = Some \<lparr> width = 640, height = 480, bitrate = ''512 kbits/sec'' \<rparr>,
           shouldReconnect = False \<rparr>,
       logs = [], timerCounter = 3, timeouts = [], intervals = [(3, ''0'')],
       reconnectCleanup = None, reconnectTimeoutVar = [], effects = [] \<rparr>"

text \<open>What the outside world answers in the sample runs, and a run that brings the
  fresh panel to playing: the plugin attaches, an active video track arrives, the
  100 ms timeout fires, the element learns the frame size, and \<^verbatim>\<open>play()\<close> resolves
  (twice, as it does when two tracks arrive before the first promise settles).\<close>

definition ext0 :: Ext where
  "ext0 = \<lparr> extNewJanus = sampleJanus, extBitrate = Inr ''512 kbits/sec'', extInitThrows = None \<rparr>"

definition playingEvents :: "Event list" where
  "playingEvents =
     [EvAttachSuccess env0 \<lparr>handleId = 1\<rparr>,
      EvRemoteTrack env0 sampleTrack ''0'' True,
      EvTimeout 5 ext0,
      EvVideoSize 640 480,
      EvPlayThen ''0'' ext0,
      EvPlayThen ''0'' ext0]"

text \<open>The manual restart that outlives the panel: on the connected panel the restart
  control is clicked and the panel is unmounted before the 500 ms timeout fires
  (\<open>restartUnmounted\<close>); then the browser fires that timeout, which \<^verbatim>\<open>setTimeout\<close> had
  handed out under the handle \<open>6\<close> (\<open>restartStale\<close>). The second timeout is the last
  thing the first continuation schedules, so its handle is the newest one,
  \<open>timerCounter restartStale\<close>.\<close>

definition restartUnmounted :: World where
  "restartUnmounted = run connectedWorld [EvRestartClick env0, EvUnmount]"

definition restartStale :: World where
  "restartStale = step restartUnmounted (EvTimeout 6 ext0)"

section \<open>Theorems\<close>

subsection \<open>Statements, logging and state updates\<close>

lemma block_Cons_fst_snd:
  "block (s # ss) w = (if fst (s w) = None then block ss (snd (s w)) else (fst (s w), snd (s w)))"
  by (cases "s w") (auto split: option.splits)

lemma ok_simps [simp]: "fst (ok w) = None" "snd (ok w) = w"
  by (simp_all add: ok_def)

lemma throw_simps [simp]: "fst (throw e w) = Some e" "snd (throw e w) = w"
  by (simp_all add: throw_def)

lemma eff_simps [simp]: "fst (eff f w) = None" "snd (eff f w) = f w"
  by (simp_all add: eff_def)

lemma block_Nil_simps [simp]: "fst (block [] w) = None" "snd (block [] w) = w"
  by simp_all

declare block.simps(2) [simp del]
declare block_Cons_fst_snd [simp]

lemma emit_simps [simp]:
  "fst (emit x w) = None" "snd (emit x w) = w\<lparr>effects := effects w @ [x]\<rparr>"
  by (simp_all add: emit_def)

lemma setTimeoutStmt_simps [simp]:
  "fst (setTimeoutStmt a w) = None"
  "snd (setTimeoutStmt a w) =
     w\<lparr>timerCounter := Suc (timerCounter w),
       timeouts := timeouts w @ [(Suc (timerCounter w), a)]\<rparr>"
  by (simp_all add: setTimeoutStmt_def setTimeout_def Let_def)

lemma log_eq:
  "log m t w =
     (None, w\<lparr>logs := logs w @ [\<lparr>logMessage = m, logType = t\<rparr>],
              timerCounter := Suc (timerCounter w),
              timeouts := timeouts w @ [(Suc (timerCounter w), ScrollLogs)]\<rparr>)"
  by (simp add: log_def setTimeoutStmt_def setTimeout_def Let_def)

lemma log_fst [simp]: "fst (log m t w) = None"
  by (simp add: log_eq)

lemma log_frame [simp]:
  "videoRef (snd (log m t w)) = videoRef w"
  "janusRef (snd (log m t w)) = janusRef w"
  "streamingRef (snd (log m t w)) = streamingRef w"
  "bitrateTimerRef (snd (log m t w)) = bitrateTimerRef w"
  "streamState (snd (log m t w)) = streamState w"
  "intervals (snd (log m t w)) = intervals w"
  "reconnectCleanup (snd (log m t w)) = reconnectCleanup w"
  "reconnectTimeoutVar (snd (log m t w)) = reconnectTimeoutVar w"
  "effects (snd (log m t w)) = effects w"
  by (simp_all add: log_eq)

lemma updateStreamState_fst [simp]: "fst (updateStreamState u w) = None"
  by (simp add: updateStreamState_def Let_def split: option.splits)

lemma updateStreamState_frame [simp]:
  "videoRef (snd (updateStreamState u w)) = videoRef w"
  "janusRef (snd (updateStreamState u w)) = janusRef w"
  "streamingRef (snd (updateStreamState u w)) = streamingRef w"
  "bitrateTimerRef (snd (updateStreamState u w)) = bitrateTimerRef w"
  "intervals (snd (updateStreamState u w)) = intervals w"
  "reconnectCleanup (snd (updateStreamState u w)) = reconnectCleanup w"
  "reconnectTimeoutVar (snd (updateStreamState u w)) = reconnectTimeoutVar w"
  "effects (snd (updateStreamState u w)) = effects w"
  by (simp_all add: updateStreamState_def Let_def split: option.splits)

lemma updateStreamState_state [simp]:
  "streamState (snd (updateStreamState u w)) = mergeUpdate (streamState w) u"
  by (simp add: updateStreamState_def Let_def split: option.splits)

subsection \<open>Substring test\<close>

lemma startsWith_iff: "startsWith s sub \<longleftrightarrow> (\<exists>b. s = sub @ b)"
  by (induction s sub rule: startsWith.induct) auto

lemma str_includes_iff: "str_includes s sub \<longleftrightarrow> (\<exists>a b. s = a @ sub @ b)"
proof (induction s)
  case Nil
  then show ?case by (simp add: startsWith_iff)
next
  case (Cons c cs)
  show ?case
  proof
    assume "str_includes (c # cs) sub"
    then consider "startsWith (c # cs) sub" | "str_includes cs sub" by auto
    then show "\<exists>a b. c # cs = a @ sub @ b"
    proof cases
      case 1
      then obtain b where "c # cs = sub @ b" by (auto simp: startsWith_iff)
      then have "c # cs = [] @ sub @ b" by simp
      then show ?thesis by blast
    next
      case 2
      then obtain a b where "cs = a @ sub @ b" using Cons.IH by blast
      then have "c # cs = (c # a) @ sub @ b" by simp
      then show ?thesis by blast
    qed
  next
    assume "\<exists>a b. c # cs = a @ sub @ b"
    then obtain a b where ab: "c # cs = a @ sub @ b" by blast
    show "str_includes (c # cs) sub"
    proof (cases a)
      case Nil
      with ab have "startsWith (c # cs) sub" by (auto simp: startsWith_iff)
      then show ?thesis by simp
    next
      case (Cons x xs)
      with ab have "cs = xs @ sub @ b" by simp
      then have "str_includes cs sub" using Cons.IH by blast
      then show ?thesis by simp
    qed
  qed
qed

subsection \<open>Settings store\<close>

text \<open>
  C7 (as the spec words it): every field missing from the host's partial state is
  initialised to its default, the default label being \<^verbatim>\<open>"Stream"\<close>. The source's
  default label is \<^verbatim>\<open>"Janus Stream"\<close>: with no stored state the label is not
  \<^verbatim>\<open>"Stream"\<close>.
\<close>

theorem initialPanelState_label_counterexample:
  "label (stream (initialPanelState \<lparr> p_stream = None \<rparr>)) \<noteq> ''Stream''"
  by (simp add: initialPanelState_def field_def nullish_def)

text \<open>
  C7 (amended): for every host-provided partial state, each missing field is
  initialised to the source's default (label \<^verbatim>\<open>"Janus Stream"\<close>, visible true, server
  URL \<^verbatim>\<open>http://localhost:8088/janus\<close>, stream id 1, debug false), and every field that
  is present keeps the value provided.
\<close>

theorem initialPanelState_defaults:
  "(case p_stream ps of
      None \<Rightarrow>
        initialPanelState ps =
          \<lparr> stream = \<lparr> label = ''Janus Stream'', visible = True,
                       serverUrl = ''http://localhost:8088/janus'', streamId = 1,
                       debug = False \<rparr> \<rparr>
    | Some s \<Rightarrow>
        label (stream (initialPanelState ps)) =
          (case p_label s of None \<Rightarrow> ''Janus Stream'' | Some x \<Rightarrow> x) \<and>
        visible (stream (initialPanelState ps)) =
          (case p_visible s of None \<Rightarrow> True | Some x \<Rightarrow> x) \<and>
        serverUrl (stream (initialPanelState ps)) =
          (case p_serverUrl s of None \<Rightarrow> ''http://localhost:8088/janus'' | Some x \<Rightarrow> x) \<and>
        streamId (stream (initialPanelState ps)) =
          (case p_streamId s of None \<Rightarrow> 1 | Some x \<Rightarrow> x) \<and>
        debug (stream (initialPanelState ps)) =
          (case p_debug s of None \<Rightarrow> False | Some x \<Rightarrow> x))"
  by (simp add: initialPanelState_def field_def nullish_def split: option.splits)

theorem initialPanelState_defaults_witness:
  "initialPanelState
     \<lparr> p_stream = Some \<lparr> p_label = None, p_visible = Some False, p_serverUrl = None,
                         p_streamId = Some 7, p_debug = None \<rparr> \<rparr> =
   \<lparr> stream = \<lparr> label = ''Janus Stream'', visible = False,
                serverUrl = ''http://localhost:8088/janus'', streamId = 7,
                debug = False \<rparr> \<rparr>"
  using initialPanelState_defaults
    [of "\<lparr> p_stream = Some \<lparr> p_label = None, p_visible = Some False, p_serverUrl = None,
                         p_streamId = Some 7, p_debug = None \<rparr> \<rparr>"]
  by simp

subsection \<open>Starting the stream\<close>

text \<open>
  C6 (as the spec words it): without a live plugin handle \<^verbatim>\<open>startStream\<close> surfaces a
  plugin error and is otherwise a no-op. The source also sets the connection state:
  called while the panel is attaching, it leaves the state changed.
\<close>

theorem startStream_no_handle_counterexample:
  "connectionState
     (streamState (snd (startStream env0
        (world0\<lparr>streamState := initialStreamState\<lparr>connectionState := ATTACHING\<rparr>\<rparr>))))
   \<noteq> connectionState
       (streamState (world0\<lparr>streamState := initialStreamState\<lparr>connectionState := ATTACHING\<rparr>\<rparr>))"
  by (simp add: startStream_def world0_def initialWorld_def initialStreamState_def
      mergeUpdate_def spreadKey_def noUpdate_def)

text \<open>
  C6 (amended): without a live plugin handle \<^verbatim>\<open>startStream\<close> completes, surfaces the
  plugin-sourced error "Streaming plugin not initialized", forces the connection
  state to Disconnected, sends nothing and leaves the connected flag, the stats, the
  reconnect flag, the refs and the bitrate timer as they were. With a live plugin
  handle it moves the connection state to Watching, changes no other field of the
  stream state, and sends exactly one request on that handle: "watch" with the
  configured stream id.
\<close>

theorem startStream_spec:
  "(case streamingRef w of
      None \<Rightarrow>
        fst (startStream env w) = None \<and>
        streamState (snd (startStream env w)) =
          (streamState w)\<lparr> connectionState := DISCONNECTED,
                            error := Some \<lparr> source = SrcPlugin,
                                            message = ''Streaming plugin not initialized'' \<rparr> \<rparr> \<and>
        effects (snd (startStream env w)) = effects w \<and>
        videoRef (snd (startStream env w)) = videoRef w \<and>
        janusRef (snd (startStream env w)) = janusRef w \<and>
        streamingRef (snd (startStream env w)) = None \<and>
        bitrateTimerRef (snd (startStream env w)) = bitrateTimerRef w \<and>
        intervals (snd (startStream env w)) = intervals w
    | Some h \<Rightarrow>
        fst (startStream env w) = None \<and>
        streamState (snd (startStream env w)) =
          (streamState w)\<lparr> connectionState := WATCHING \<rparr> \<and>
        effects (snd (startStream env w)) =
          effects w @ [PluginSend h (ReqWatch (envStreamId env)) None] \<and>
        videoRef (snd (startStream env w)) = videoRef w \<and>
        janusRef (snd (startStream env w)) = janusRef w \<and>
        streamingRef (snd (startStream env w)) = Some h \<and>
        bitrateTimerRef (snd (startStream env w)) = bitrateTimerRef w \<and>
        intervals (snd (startStream env w)) = intervals w)"
  by (simp add: startStream_def mergeUpdate_def spreadKey_def noUpdate_def split: option.splits)

theorem startStream_spec_witness:
  "effects (snd (startStream (env0\<lparr>envStreamId := 42\<rparr>)
      (world0\<lparr>streamingRef := Some \<lparr>handleId = 5\<rparr>\<rparr>))) =
     [PluginSend \<lparr>handleId = 5\<rparr> (ReqWatch 42) None] \<and>
   connectionState (streamState (snd (startStream (env0\<lparr>envStreamId := 42\<rparr>)
      (world0\<lparr>streamingRef := Some \<lparr>handleId = 5\<rparr>\<rparr>)))) = WATCHING \<and>
   error (streamState (snd (startStream env0 world0))) =
     Some \<lparr> source = SrcPlugin, message = ''Streaming plugin not initialized'' \<rparr> \<and>
   effects (snd (startStream env0 world0)) = []"
  using startStream_spec [where w = "world0\<lparr>streamingRef := Some \<lparr>handleId = 5\<rparr>\<rparr>"
      and env = "env0\<lparr>envStreamId := 42\<rparr>"]
    startStream_spec [where w = world0 and env = env0]
  by (simp add: world0_def env0_def initialWorld_def)

subsection \<open>Playback rejection\<close>

text \<open>
  C2: when the rejection's message contains "interrupted by a new load request", the
  handler completes with the stream state untouched (no error surfaced, no forced
  Disconnected) and calls nothing; for every other rejection it sets the connection
  state to Disconnected and surfaces a playback-sourced error carrying the
  rejection's text.
\<close>

theorem playCatch_spec:
  "((\<exists>m a b. errMessage err = Some m \<and> m = a @ ''interrupted by a new load request'' @ b) \<longrightarrow>
      fst (playCatch err w) = None \<and>
      streamState (snd (playCatch err w)) = streamState w \<and>
      effects (snd (playCatch err w)) = effects w) \<and>
   (\<not> (\<exists>m a b. errMessage err = Some m \<and> m = a @ ''interrupted by a new load request'' @ b) \<longrightarrow>
      fst (playCatch err w) = None \<and>
      connectionState (streamState (snd (playCatch err w))) = DISCONNECTED \<and>
      error (streamState (snd (playCatch err w))) =
        Some \<lparr> source = SrcPlayback, message = errText err \<rparr>)"
proof -
  have ph: "interruptedPhrase = ''interrupted by a new load request''"
    by (simp add: interruptedPhrase_def)
  have ne: "\<And>m a b. m = a @ interruptedPhrase @ b \<Longrightarrow> m \<noteq> []"
    by (simp add: interruptedPhrase_def)
  have benign:
    "(case errMessage err of None \<Rightarrow> False
      | Some m \<Rightarrow> m \<noteq> [] \<and> str_includes m interruptedPhrase)
     \<longleftrightarrow> (\<exists>m a b. errMessage err = Some m \<and> m = a @ interruptedPhrase @ b)"
    using ne by (cases "errMessage err") (auto simp: str_includes_iff)
  show ?thesis
    unfolding ph [symmetric]
    using benign
    by (auto simp: playCatch_def mergeUpdate_def spreadKey_def noUpdate_def)
qed

theorem playCatch_spec_witness:
  "streamState (snd (playCatch
      \<lparr> errMessage = Some ''The play() request was interrupted by a new load request.'',
        errString = ''AbortError'' \<rparr> world0)) = streamState world0 \<and>
   connectionState (streamState (snd (playCatch
      \<lparr> errMessage = Some ''NotAllowedError'', errString = ''NotAllowedError'' \<rparr> world0)))
     = DISCONNECTED \<and>
   error (streamState (snd (playCatch
      \<lparr> errMessage = Some ''NotAllowedError'', errString = ''NotAllowedError'' \<rparr> world0)))
     = Some \<lparr> source = SrcPlayback, message = ''NotAllowedError'' \<rparr>"
proof -
  let ?e1 = "\<lparr> errMessage = Some ''The play() request was interrupted by a new load request.'',
        errString = ''AbortError'' \<rparr>"
  let ?e2 = "\<lparr> errMessage = Some ''NotAllowedError'', errString = ''NotAllowedError'' \<rparr>"
  have a: "\<exists>m a b. errMessage ?e1 = Some m \<and> m = a @ ''interrupted by a new load request'' @ b"
    by (rule exI [of _ "''The play() request was interrupted by a new load request.''"],
        rule exI [of _ "''The play() request was ''"], rule exI [of _ "''.''"]) simp
  have "\<not> str_includes ''NotAllowedError'' ''interrupted by a new load request''"
    by code_simp
  then have "\<not> (\<exists>a b. ''NotAllowedError'' = a @ ''interrupted by a new load request'' @ b)"
    unfolding str_includes_iff .
  then have b: "\<not> (\<exists>m a b. errMessage ?e2 = Some m
      \<and> m = a @ ''interrupted by a new load request'' @ b)"
    by auto
  note t1 = playCatch_spec [where w = world0 and err = ?e1, THEN conjunct1, rule_format, OF a]
  note t2 = playCatch_spec [where w = world0 and err = ?e2, THEN conjunct2, rule_format, OF b]
  have "errText ?e2 = ''NotAllowedError''"
    by (simp add: errText_def)
  with t1 t2 show ?thesis by simp
qed

subsection \<open>Tracks that are not video\<close>

text \<open>
  C10: an \<^verbatim>\<open>onremotetrack\<close> event for a track whose kind is not video, active or not,
  completes and leaves the stream state (connection state, connected flag, stats,
  error), the bitrate timer handle and the live interval timers, the video element
  with its attached stream, the session and plugin refs and the calls made so far
  unchanged.
\<close>

theorem onremotetrack_not_video:
  "kind track \<noteq> ''video'' \<Longrightarrow>
     fst (onremotetrack env track mid on w) = None \<and>
     streamState (snd (onremotetrack env track mid on w)) = streamState w \<and>
     bitrateTimerRef (snd (onremotetrack env track mid on w)) = bitrateTimerRef w \<and>
     intervals (snd (onremotetrack env track mid on w)) = intervals w \<and>
     videoRef (snd (onremotetrack env track mid on w)) = videoRef w \<and>
     janusRef (snd (onremotetrack env track mid on w)) = janusRef w \<and>
     streamingRef (snd (onremotetrack env track mid on w)) = streamingRef w \<and>
     effects (snd (onremotetrack env track mid on w)) = effects w"
  by (simp add: onremotetrack_def)

theorem onremotetrack_not_video_witness:
  "kind \<lparr> trackId = ''a1'', kind = ''audio'' \<rparr> \<noteq> ''video'' \<and>
   streamState (snd (onremotetrack env0 \<lparr> trackId = ''a1'', kind = ''audio'' \<rparr> ''0'' True world0))
     = streamState world0 \<and>
   videoRef (snd (onremotetrack env0 \<lparr> trackId = ''a1'', kind = ''audio'' \<rparr> ''0'' False world0))
     = videoRef world0"
  using onremotetrack_not_video [where track = "\<lparr> trackId = ''a1'', kind = ''audio'' \<rparr>"
      and env = env0 and mid = "''0''" and on = True and w = world0]
    onremotetrack_not_video [where track = "\<lparr> trackId = ''a1'', kind = ''audio'' \<rparr>"
      and env = env0 and mid = "''0''" and on = False and w = world0]
  by simp

subsection \<open>Cleanup\<close>

lemma clearInterval_simps [simp]:
  "fst (clearInterval h w) = None"
  "snd (clearInterval h w) = w\<lparr>intervals := filter (\<lambda>p. fst p \<noteq> h) (intervals w)\<rparr>"
  by (simp_all add: clearInterval_def)

lemma clearTimeout_simps [simp]:
  "fst (clearTimeout h w) = None"
  "snd (clearTimeout h w) = w\<lparr>timeouts := filter (\<lambda>p. fst p \<noteq> h) (timeouts w)\<rparr>"
  by (simp_all add: clearTimeout_def)

lemma setSrcObject_simps [simp]:
  "fst (setSrcObject s w) = None"
  "snd (setSrcObject s w) = w\<lparr>videoRef := map_option (\<lambda>v. v\<lparr>srcObject := s\<rparr>) (videoRef w)\<rparr>"
  by (simp_all add: setSrcObject_def)

lemma tryCatch_fst_snd:
  "tryCatch body h w =
     (if fst (body w) = None then (None, snd (body w))
      else h (the (fst (body w))) (snd (body w)))"
  by (cases "body w") (auto simp: tryCatch_def split: option.splits)

lemma clearBitrateTimer_fst [simp]: "fst (clearBitrateTimer w) = None"
  by (simp add: clearBitrateTimer_def split: option.splits)

lemma clearBitrateTimer_frame [simp]:
  "videoRef (snd (clearBitrateTimer w)) = videoRef w"
  "janusRef (snd (clearBitrateTimer w)) = janusRef w"
  "streamingRef (snd (clearBitrateTimer w)) = streamingRef w"
  "streamState (snd (clearBitrateTimer w)) = streamState w"
  "logs (snd (clearBitrateTimer w)) = logs w"
  "effects (snd (clearBitrateTimer w)) = effects w"
  "timeouts (snd (clearBitrateTimer w)) = timeouts w"
  "timerCounter (snd (clearBitrateTimer w)) = timerCounter w"
  "reconnectCleanup (snd (clearBitrateTimer w)) = reconnectCleanup w"
  "reconnectTimeoutVar (snd (clearBitrateTimer w)) = reconnectTimeoutVar w"
  by (simp_all add: clearBitrateTimer_def split: option.splits)

lemma clearBitrateTimer_timer:
  "bitrateTimerRef (snd (clearBitrateTimer w)) =
     (case bitrateTimerRef w of None \<Rightarrow> None | Some h \<Rightarrow> if h \<noteq> 0 then None else Some h)"
  "intervals (snd (clearBitrateTimer w)) =
     (case bitrateTimerRef w of
        None \<Rightarrow> intervals w
      | Some h \<Rightarrow> if h \<noteq> 0 then filter (\<lambda>p. fst p \<noteq> h) (intervals w) else intervals w)"
  by (simp_all add: clearBitrateTimer_def split: option.splits)

lemma janusTryBody_frame [simp]:
  "videoRef (snd (janusTryBody j w)) = videoRef w"
  "janusRef (snd (janusTryBody j w)) = janusRef w"
  "streamingRef (snd (janusTryBody j w)) = streamingRef w"
  "bitrateTimerRef (snd (janusTryBody j w)) = bitrateTimerRef w"
  "streamState (snd (janusTryBody j w)) = streamState w"
  "intervals (snd (janusTryBody j w)) = intervals w"
  "reconnectCleanup (snd (janusTryBody j w)) = reconnectCleanup w"
  "reconnectTimeoutVar (snd (janusTryBody j w)) = reconnectTimeoutVar w"
  by (simp_all add: janusTryBody_def split: option.splits sum.splits)

text \<open>What \<^verbatim>\<open>cleanupJanus\<close> leaves in each part of the world.\<close>

lemma cleanupJanus_fst [simp]: "fst (cleanupJanus w) = None"
  by (simp add: cleanupJanus_def tryCatch_fst_snd split: option.splits)

lemma cleanupJanus_refs [simp]:
  "janusRef (snd (cleanupJanus w)) = None"
  "streamingRef (snd (cleanupJanus w)) = None"
  "videoRef (snd (cleanupJanus w)) = map_option (\<lambda>v. v\<lparr>srcObject := None\<rparr>) (videoRef w)"
  "reconnectCleanup (snd (cleanupJanus w)) = reconnectCleanup w"
  "reconnectTimeoutVar (snd (cleanupJanus w)) = reconnectTimeoutVar w"
  by (simp_all add: cleanupJanus_def tryCatch_fst_snd split: option.splits)

lemma cleanupJanus_state [simp]:
  "streamState (snd (cleanupJanus w)) =
     (streamState w)\<lparr> connectionState := DISCONNECTED, isConnected := False,
                       videoStats := None \<rparr>"
  by (simp add: cleanupJanus_def tryCatch_fst_snd mergeUpdate_def spreadKey_def noUpdate_def
      split: option.splits)

lemma cleanupJanus_timer:
  "bitrateTimerRef (snd (cleanupJanus w)) =
     (case bitrateTimerRef w of None \<Rightarrow> None | Some h \<Rightarrow> if h \<noteq> 0 then None else Some h)"
  "intervals (snd (cleanupJanus w)) =
     (case bitrateTimerRef w of
        None \<Rightarrow> intervals w
      | Some h \<Rightarrow> if h \<noteq> 0 then filter (\<lambda>p. fst p \<noteq> h) (intervals w) else intervals w)"
  by (simp_all add: cleanupJanus_def tryCatch_fst_snd clearBitrateTimer_timer split: option.splits)

lemma log_logs [simp]:
  "logs (snd (log m t w)) = logs w @ [\<lparr>logMessage = m, logType = t\<rparr>]"
  by (simp add: log_eq)

lemma updateStreamState_logs:
  "set (logs w) \<subseteq> set (logs (snd (updateStreamState u w)))"
  by (auto simp: updateStreamState_def Let_def split: option.splits)

lemma janusTryBody_throws:
  "fst (janusTryBody j w) =
     (case isConnectedFn j of
        Some (Inl e) \<Rightarrow> Some e
      | _ \<Rightarrow> destroyThrows j)"
  by (simp add: janusTryBody_def split: option.splits sum.splits)

text \<open>
  C3: \<^verbatim>\<open>cleanupJanus\<close> always completes, and a second call right after the first
  leaves the same observable end state (session handle, plugin handle, bitrate timer
  handle and live interval timers, video element and its source, connection state,
  connected flag, stats, error, reconnect flag) as the first call alone. With no
  session it completes as well, and the only call it makes on a collaborator is the
  reload of the video element, when there is one.
\<close>

theorem cleanupJanus_idempotent:
  "fst (cleanupJanus w) = None \<and>
   fst (cleanupJanus (snd (cleanupJanus w))) = None \<and>
   observable (snd (cleanupJanus (snd (cleanupJanus w)))) = observable (snd (cleanupJanus w)) \<and>
   (janusRef w = None \<longrightarrow>
      effects (snd (cleanupJanus w)) =
        effects w @ (case videoRef w of None \<Rightarrow> [] | Some v \<Rightarrow> [VideoLoad]))"
proof -
  have t: "bitrateTimerRef (snd (cleanupJanus (snd (cleanupJanus w)))) =
             bitrateTimerRef (snd (cleanupJanus w))"
          "intervals (snd (cleanupJanus (snd (cleanupJanus w)))) =
             intervals (snd (cleanupJanus w))"
    by (simp_all add: cleanupJanus_timer split: option.splits)
  have v: "videoRef (snd (cleanupJanus (snd (cleanupJanus w)))) = videoRef (snd (cleanupJanus w))"
    by (simp add: option.map_comp comp_def)
  have e: "janusRef w = None \<Longrightarrow>
      effects (snd (cleanupJanus w)) =
        effects w @ (case videoRef w of None \<Rightarrow> [] | Some v \<Rightarrow> [VideoLoad])"
    by (simp add: cleanupJanus_def split: option.splits)
  show ?thesis
    using t v e by (simp add: observable_def)
qed

theorem cleanupJanus_idempotent_witness:
  "observable (snd (cleanupJanus (snd (cleanupJanus connectedWorld)))) =
     observable (snd (cleanupJanus connectedWorld)) \<and>
   janusRef world0 = None \<and>
   effects (snd (cleanupJanus world0)) = [VideoLoad]"
  using cleanupJanus_idempotent [of connectedWorld] cleanupJanus_idempotent [of world0]
  by (simp add: world0_def initialWorld_def)

text \<open>
  C8: whatever the session object does when it is torn down, \<^verbatim>\<open>cleanupJanus\<close> completes
  without throwing; the session and plugin handle references are cleared, the video
  element's source is reset and the element reloaded, the connection state is
  Disconnected, the connected flag false and the stats cleared; and when the body of
  the \<^verbatim>\<open>try\<close> throws \<open>e\<close> (from \<^verbatim>\<open>isConnected\<close> or from \<^verbatim>\<open>destroy\<close>), the warning
  "Error during Janus cleanup: e" is in the log.
\<close>

theorem cleanupJanus_completes:
  "janusRef w = Some j \<Longrightarrow>
     fst (cleanupJanus w) = None \<and>
     janusRef (snd (cleanupJanus w)) = None \<and>
     streamingRef (snd (cleanupJanus w)) = None \<and>
     videoRef (snd (cleanupJanus w)) = map_option (\<lambda>v. v\<lparr>srcObject := None\<rparr>) (videoRef w) \<and>
     (videoRef w \<noteq> None \<longrightarrow> VideoLoad \<in> set (effects (snd (cleanupJanus w)))) \<and>
     connectionState (streamState (snd (cleanupJanus w))) = DISCONNECTED \<and>
     isConnected (streamState (snd (cleanupJanus w))) = False \<and>
     videoStats (streamState (snd (cleanupJanus w))) = None \<and>
     (\<forall>e. fst (janusTryBody j w) = Some e \<longrightarrow>
        \<lparr>logMessage = ''Error during Janus cleanup: '' @ e, logType = LWarn\<rparr>
          \<in> set (logs (snd (cleanupJanus w))))"
proof -
  assume j: "janusRef w = Some j"
  have l: "\<And>e. fst (janusTryBody j w) = Some e \<Longrightarrow>
        \<lparr>logMessage = ''Error during Janus cleanup: '' @ e, logType = LWarn\<rparr>
          \<in> set (logs (snd (cleanupJanus w)))"
  proof -
    fix e assume e: "fst (janusTryBody j w) = Some e"
    then have e': "\<And>w'. fst (janusTryBody j w') = Some e"
      by (simp add: janusTryBody_throws)
    show "\<lparr>logMessage = ''Error during Janus cleanup: '' @ e, logType = LWarn\<rparr>
          \<in> set (logs (snd (cleanupJanus w)))"
      using j e' updateStreamState_logs
      by (fastforce simp: cleanupJanus_def tryCatch_fst_snd split: option.splits)
  qed
  have v: "videoRef w \<noteq> None \<Longrightarrow> VideoLoad \<in> set (effects (snd (cleanupJanus w)))"
    by (auto simp: cleanupJanus_def tryCatch_fst_snd split: option.splits)
  show ?thesis using l v by simp
qed

theorem cleanupJanus_completes_witness:
  "janusRef (connectedWorld\<lparr>janusRef := Some (sampleJanus\<lparr>destroyThrows := Some ''TypeError''\<rparr>)\<rparr>)
     = Some (sampleJanus\<lparr>destroyThrows := Some ''TypeError''\<rparr>) \<and>
   fst (janusTryBody (sampleJanus\<lparr>destroyThrows := Some ''TypeError''\<rparr>)
          (connectedWorld\<lparr>janusRef := Some (sampleJanus\<lparr>destroyThrows := Some ''TypeError''\<rparr>)\<rparr>))
     = Some ''TypeError'' \<and>
   fst (cleanupJanus
          (connectedWorld\<lparr>janusRef := Some (sampleJanus\<lparr>destroyThrows := Some ''TypeError''\<rparr>)\<rparr>))
     = None \<and>
   janusRef (snd (cleanupJanus
          (connectedWorld\<lparr>janusRef := Some (sampleJanus\<lparr>destroyThrows := Some ''TypeError''\<rparr>)\<rparr>)))
     = None \<and>
   \<lparr>logMessage = ''Error during Janus cleanup: TypeError'', logType = LWarn\<rparr>
     \<in> set (logs (snd (cleanupJanus
          (connectedWorld\<lparr>janusRef := Some (sampleJanus\<lparr>destroyThrows := Some ''TypeError''\<rparr>)\<rparr>))))"
proof -
  let ?j = "sampleJanus\<lparr>destroyThrows := Some ''TypeError''\<rparr>"
  let ?w = "connectedWorld\<lparr>janusRef := Some ?j\<rparr>"
  have a: "janusRef ?w = Some ?j" by simp
  have b: "fst (janusTryBody ?j ?w) = Some ''TypeError''"
    by (simp add: janusTryBody_throws sampleJanus_def)
  from cleanupJanus_completes [OF a] b show ?thesis by simp
qed

subsection \<open>Stopping the stream\<close>

lemma stopStream_fst [simp]: "fst (stopStream w) = None"
proof -
  have "\<And>ts w. fst (block (map (\<lambda>t. emit (TrackStop t)) ts) w) = None"
  proof -
    fix ts w show "fst (block (map (\<lambda>t. emit (TrackStop t)) ts) w) = None"
      by (induction ts arbitrary: w) simp_all
  qed
  then show ?thesis
    by (simp add: stopStream_def Let_def split: option.splits)
qed

lemma trackStops_snd:
  "snd (block (map (\<lambda>t. emit (TrackStop t)) ts) w) = w\<lparr>effects := effects w @ map TrackStop ts\<rparr>"
  by (induction ts arbitrary: w) simp_all

lemma trackStops_fst [simp]:
  "fst (block (map (\<lambda>t. emit (TrackStop t)) ts) w) = None"
  by (induction ts arbitrary: w) simp_all

lemma stopStream_frame [simp]:
  "janusRef (snd (stopStream w)) = janusRef w"
  "streamingRef (snd (stopStream w)) = streamingRef w"
  "bitrateTimerRef (snd (stopStream w)) = bitrateTimerRef w"
  "intervals (snd (stopStream w)) = intervals w"
  "streamState (snd (stopStream w)) = streamState w"
  "reconnectCleanup (snd (stopStream w)) = reconnectCleanup w"
  "reconnectTimeoutVar (snd (stopStream w)) = reconnectTimeoutVar w"
  by (simp_all add: stopStream_def Let_def trackStops_snd split: option.splits)

lemma stopStream_video:
  "videoRef (snd (stopStream w)) =
     (case streamingRef w of
        None \<Rightarrow> videoRef w
      | Some h \<Rightarrow> map_option (\<lambda>v. v\<lparr>srcObject := None\<rparr>) (videoRef w))"
  by (simp add: stopStream_def Let_def trackStops_snd split: option.splits)

text \<open>
  C9: without a plugin handle \<^verbatim>\<open>stopStream\<close> changes nothing at all; in every world it
  completes, and a second call right after the first leaves the same observable end
  state as the first call alone. (The second call does pause the element, send
  "stop" and hang up once more; these calls are not part of the end state.)
\<close>

theorem stopStream_idempotent:
  "(streamingRef w = None \<longrightarrow> stopStream w = (None, w)) \<and>
   fst (stopStream w) = None \<and>
   fst (stopStream (snd (stopStream w))) = None \<and>
   observable (snd (stopStream (snd (stopStream w)))) = observable (snd (stopStream w))"
proof -
  have n: "streamingRef w = None \<Longrightarrow> stopStream w = (None, w)"
    by (simp add: stopStream_def ok_def)
  have v: "videoRef (snd (stopStream (snd (stopStream w)))) = videoRef (snd (stopStream w))"
    by (simp add: stopStream_video option.map_comp comp_def split: option.splits)
  show ?thesis using n v by (simp add: observable_def)
qed

theorem stopStream_idempotent_witness:
  "streamingRef world0 = None \<and> stopStream world0 = (None, world0) \<and>
   observable (snd (stopStream (snd (stopStream connectedWorld)))) =
     observable (snd (stopStream connectedWorld))"
  using stopStream_idempotent [of world0] stopStream_idempotent [of connectedWorld]
  by (simp add: world0_def initialWorld_def)

text \<open>The calls of one \<^verbatim>\<open>stopStream\<close> on the connected panel.\<close>

lemma stopStream_effects_example:
  "effects (snd (stopStream connectedWorld)) =
     [VideoPause, TrackStop sampleTrack, PluginSend \<lparr>handleId = 1\<rparr> ReqStop None,
      PluginHangup \<lparr>handleId = 1\<rparr>]"
  by (simp add: stopStream_def connectedWorld_def Let_def getTracks_def)

subsection \<open>One video track at a time\<close>

lemma removeTracks_filter:
  "foldl (\<lambda>s t. removeTrack t s) s ts = filter (\<lambda>x. x \<notin> set ts) s"
  by (induction ts arbitrary: s) (auto simp: removeTrack_def intro: filter_cong)

lemma replace_video_track:
  assumes "kind t = ''video''"
  shows "getVideoTracks (addTrack t (foldl (\<lambda>s x. removeTrack x s) s (getVideoTracks s))) = [t]"
proof -
  let ?r = "foldl (\<lambda>s x. removeTrack x s) s (getVideoTracks s)"
  have r: "?r = filter (\<lambda>x. kind x \<noteq> ''video'') s"
    by (auto simp: removeTracks_filter getVideoTracks_def intro: filter_cong)
  then have "t \<notin> set ?r" using assms by simp
  then have "addTrack t ?r = ?r @ [t]" by (simp add: addTrack_def)
  then show ?thesis using assms r by (simp add: getVideoTracks_def)
qed

lemma onremotetrack_video_on:
  assumes "videoRef w = Some v" and "kind t = ''video''"
  shows "fst (onremotetrack env t mid True w) = None"
    and "attachedVideoTracks (snd (onremotetrack env t mid True w)) = Some [t]"
  using assms replace_video_track [OF assms(2)]
  by (auto simp: onremotetrack_def attachedVideoTracks_def Let_def split: option.splits)

text \<open>Outside React state, a step leaves what the callback left.\<close>

lemma step_frame:
  "videoRef (step w e) = videoRef (snd (handler e w))"
  "janusRef (step w e) = janusRef (snd (handler e w))"
  "streamingRef (step w e) = streamingRef (snd (handler e w))"
  "bitrateTimerRef (step w e) = bitrateTimerRef (snd (handler e w))"
  "intervals (step w e) = intervals (snd (handler e w))"
  "timeouts (step w e) = timeouts (snd (handler e w))"
  "effects (step w e) = effects (snd (handler e w))"
  by (simp_all add: step_def Let_def)

lemma step_attachedVideoTracks:
  "attachedVideoTracks (step w e) = attachedVideoTracks (snd (handler e w))"
  by (simp add: attachedVideoTracks_def step_frame)

lemma run_snoc: "run w (es @ [e]) = step (run w es) e"
  by (simp add: run_def)

lemma run_tracks_mounted:
  "videoRef w \<noteq> None \<Longrightarrow> \<forall>x \<in> set xs. kind (fst (snd x)) = ''video'' \<Longrightarrow>
     videoRef (run w (map trackEvent xs)) \<noteq> None"
proof (induction xs rule: rev_induct)
  case Nil
  then show ?case by (simp add: run_def)
next
  case (snoc x xs)
  obtain env t mid where x: "x = (env, t, mid)" by (cases x) auto
  from snoc obtain v where v: "videoRef (run w (map trackEvent xs)) = Some v" by auto
  from snoc.prems x have k: "kind t = ''video''" by simp
  from onremotetrack_video_on(2) [OF v k, of env mid]
  show ?case
    by (auto simp: run_snoc step_frame handler_def x attachedVideoTracks_def
        split: option.splits)
qed

text \<open>
  C1: start from any world in which the video element is mounted and let any
  non-empty sequence of \<^verbatim>\<open>onremotetrack\<close> events arrive, each carrying an active video
  track. Afterwards the element has a stream attached and the video tracks of that
  stream are exactly one: the track of the last event. (The statement holds for
  every such sequence, hence after each of its events.)
\<close>

theorem onremotetrack_single_video_track:
  assumes "videoRef w \<noteq> None"
    and "xs \<noteq> []"
    and "\<forall>x \<in> set xs. kind (fst (snd x)) = ''video''"
  shows "attachedVideoTracks (run w (map trackEvent xs)) = Some [fst (snd (last xs))]"
proof -
  from assms(2) obtain ys x where xs: "xs = ys @ [x]"
    by (cases xs rule: rev_cases) auto
  obtain env t mid where x: "x = (env, t, mid)" by (cases x) auto
  from assms(3) xs x have k: "kind t = ''video''" by simp
  from assms(3) xs have "\<forall>y \<in> set ys. kind (fst (snd y)) = ''video''" by simp
  from run_tracks_mounted [OF assms(1) this]
  obtain v where v: "videoRef (run w (map trackEvent ys)) = Some v" by auto
  from onremotetrack_video_on(2) [OF v k, of env mid]
  show ?thesis
    by (simp add: xs x run_snoc step_attachedVideoTracks handler_def)
qed

theorem onremotetrack_single_video_track_witness:
  "videoRef world0 \<noteq> None \<and>
   attachedVideoTracks
     (run world0
        (map trackEvent
           [(env0, \<lparr>trackId = ''v1'', kind = ''video''\<rparr>, ''0''),
            (env0, \<lparr>trackId = ''v2'', kind = ''video''\<rparr>, ''1'')]))
     = Some [\<lparr>trackId = ''v2'', kind = ''video''\<rparr>]"
  using onremotetrack_single_video_track
    [where w = world0 and xs = "[(env0, \<lparr>trackId = ''v1'', kind = ''video''\<rparr>, ''0''),
            (env0, \<lparr>trackId = ''v2'', kind = ''video''\<rparr>, ''1'')]"]
  by (simp add: world0_def initialWorld_def)

subsection \<open>At most one bitrate timer\<close>

lemma timerInv_frame:
  "bitrateTimerRef w' = bitrateTimerRef w \<Longrightarrow> intervals w' = intervals w \<Longrightarrow>
     timerInv w' = timerInv w"
  by (simp add: timerInv_def split: option.splits)

lemma timerInv_clearBitrateTimer: "timerInv w \<Longrightarrow> timerInv (snd (clearBitrateTimer w))"
  by (auto simp: timerInv_def clearBitrateTimer_timer split: option.splits)

lemma timerInv_cleanupJanus: "timerInv w \<Longrightarrow> timerInv (snd (cleanupJanus w))"
  by (auto simp: timerInv_def cleanupJanus_timer split: option.splits)

lemma startStream_timer [simp]:
  "fst (startStream env w) = None"
  "bitrateTimerRef (snd (startStream env w)) = bitrateTimerRef w"
  "intervals (snd (startStream env w)) = intervals w"
  by (simp_all add: startStream_def split: option.splits)

lemma initJanusConnection_timer [simp]:
  "fst (initJanusConnection env ext w) = None"
  "bitrateTimerRef (snd (initJanusConnection env ext w)) = bitrateTimerRef w"
  "intervals (snd (initJanusConnection env ext w)) = intervals w"
  by (simp_all add: initJanusConnection_def)

lemma updateBitrate_timer [simp]:
  "fst (updateBitrate mid ext w) = None"
  "bitrateTimerRef (snd (updateBitrate mid ext w)) = bitrateTimerRef w"
  "intervals (snd (updateBitrate mid ext w)) = intervals w"
  by (simp_all add: updateBitrate_def tryCatch_fst_snd split: option.splits sum.splits)

lemma playTrack_timer [simp]:
  "fst (playTrack mid w) = None"
  "bitrateTimerRef (snd (playTrack mid w)) = bitrateTimerRef w"
  "intervals (snd (playTrack mid w)) = intervals w"
  by (simp_all add: playTrack_def split: option.splits)

lemma runReconnectCleanup_timer [simp]:
  "fst (runReconnectCleanup w) = None"
  "bitrateTimerRef (snd (runReconnectCleanup w)) = bitrateTimerRef w"
  "intervals (snd (runReconnectCleanup w)) = intervals w"
  by (simp_all add: runReconnectCleanup_def split: option.splits)

lemma setTimeout_timer [simp]:
  "bitrateTimerRef (snd (setTimeout a w)) = bitrateTimerRef w"
  "intervals (snd (setTimeout a w)) = intervals w"
  by (simp_all add: setTimeout_def Let_def)

lemma reconnectEffect_timer [simp]:
  "bitrateTimerRef (snd (reconnectEffect env w)) = bitrateTimerRef w"
  "intervals (snd (reconnectEffect env w)) = intervals w"
  by (simp_all add: reconnectEffect_def reconnectEffectBody_def setTimeout_def Let_def)


lemma handleRestartStream_timer [simp]:
  "bitrateTimerRef (snd (handleRestartStream env w)) = bitrateTimerRef w"
  "intervals (snd (handleRestartStream env w)) = intervals w"
  by (simp_all add: handleRestartStream_def)

lemma mountEffect_timer [simp]:
  "bitrateTimerRef (snd (mountEffect env ext w)) = bitrateTimerRef w"
  "intervals (snd (mountEffect env ext w)) = intervals w"
  by (simp_all add: mountEffect_def tryCatch_fst_snd split: option.splits)

lemma actionHandler_timer [simp]:
  "bitrateTimerRef (snd (actionHandler a w)) = bitrateTimerRef w"
  "intervals (snd (actionHandler a w)) = intervals w"
  by (simp_all add: actionHandler_def split: SettingsTreeAction.splits)

lemma session_timer [simp]:
  "bitrateTimerRef (snd (sessionSuccess rnd w)) = bitrateTimerRef w"
  "intervals (snd (sessionSuccess rnd w)) = intervals w"
  "bitrateTimerRef (snd (sessionError err w)) = bitrateTimerRef w"
  "intervals (snd (sessionError err w)) = intervals w"
  "bitrateTimerRef (snd (sessionDestroyed w)) = bitrateTimerRef w"
  "intervals (snd (sessionDestroyed w)) = intervals w"
  "bitrateTimerRef (snd (attachSuccess env h w)) = bitrateTimerRef w"
  "intervals (snd (attachSuccess env h w)) = intervals w"
  "bitrateTimerRef (snd (attachError err w)) = bitrateTimerRef w"
  "intervals (snd (attachError err w)) = intervals w"
  by (simp_all add: sessionSuccess_def sessionError_def sessionDestroyed_def attachSuccess_def
      attachError_def split: option.splits)

lemma message_timer [simp]:
  "bitrateTimerRef (snd (onmessage msgError jsep w)) = bitrateTimerRef w"
  "intervals (snd (onmessage msgError jsep w)) = intervals w"
  "bitrateTimerRef (snd (answerSuccess j w)) = bitrateTimerRef w"
  "intervals (snd (answerSuccess j w)) = intervals w"
  "bitrateTimerRef (snd (answerError e w)) = bitrateTimerRef w"
  "intervals (snd (answerError e w)) = intervals w"
  "bitrateTimerRef (snd (playCatch e w)) = bitrateTimerRef w"
  "intervals (snd (playCatch e w)) = intervals w"
  by (simp_all add: onmessage_def answerSuccess_def answerError_def playCatch_def Let_def
      split: option.splits)

lemma janusHooks_timer [simp]:
  "bitrateTimerRef (snd (janusLog env a w)) = bitrateTimerRef w"
  "intervals (snd (janusLog env a w)) = intervals w"
  "bitrateTimerRef (snd (janusError a w)) = bitrateTimerRef w"
  "intervals (snd (janusError a w)) = intervals w"
  "bitrateTimerRef (snd (janusWarn env a w)) = bitrateTimerRef w"
  "intervals (snd (janusWarn env a w)) = intervals w"
  by (simp_all add: janusLog_def janusError_def janusWarn_def)


lemma timerInv_onremotetrack: "timerInv w \<Longrightarrow> timerInv (snd (onremotetrack env t mid on w))"
proof -
  assume inv: "timerInv w"
  have off: "\<And>u v. timerInv (snd (clearBitrateTimer (snd (updateStreamState u w))))"
    using inv by (auto simp: timerInv_def clearBitrateTimer_timer split: option.splits)
  have frame: "on \<or> kind t \<noteq> ''video'' \<Longrightarrow>
      bitrateTimerRef (snd (onremotetrack env t mid on w)) = bitrateTimerRef w \<and>
      intervals (snd (onremotetrack env t mid on w)) = intervals w"
    by (auto simp: onremotetrack_def Let_def split: option.splits)
  show ?thesis
  proof (cases "on \<or> kind t \<noteq> ''video''")
    case True
    then show ?thesis using frame inv timerInv_frame by blast
  next
    case False
    then have "bitrateTimerRef (snd (onremotetrack env t mid on w)) =
        bitrateTimerRef (snd (clearBitrateTimer (snd (updateStreamState
          (noUpdate\<lparr> u_connectionState := Some STOPPED, u_isConnected := Some False,
                     u_videoStats := Some None \<rparr>) w)))) \<and>
      intervals (snd (onremotetrack env t mid on w)) =
        intervals (snd (clearBitrateTimer (snd (updateStreamState
          (noUpdate\<lparr> u_connectionState := Some STOPPED, u_isConnected := Some False,
                     u_videoStats := Some None \<rparr>) w))))"
      by (simp add: onremotetrack_def)
    then show ?thesis using off timerInv_frame by blast
  qed
qed

text \<open>Check-before-create: with a handle stored, playThen starts no sampler.\<close>

lemma playThen_stored:
  "bitrateTimerRef w = Some h \<Longrightarrow>
     bitrateTimerRef (snd (playThen mid ext w)) = Some h \<and>
     intervals (snd (playThen mid ext w)) = intervals w"
  by (simp add: playThen_def)

lemma playThen_fresh:
  "bitrateTimerRef w = None \<Longrightarrow>
     bitrateTimerRef (snd (playThen mid ext w)) =
       Some (Suc (timerCounter (snd (updateBitrate mid ext (snd (updateStreamState
          (noUpdate\<lparr> u_connectionState := Some CONNECTED, u_isConnected := Some True,
                     u_error := Some None \<rparr>) w)))))) \<and>
     intervals (snd (playThen mid ext w)) =
       intervals w @
       [(Suc (timerCounter (snd (updateBitrate mid ext (snd (updateStreamState
          (noUpdate\<lparr> u_connectionState := Some CONNECTED, u_isConnected := Some True,
                     u_error := Some None \<rparr>) w))))), mid)]"
  by (simp add: playThen_def setInterval_def Let_def ok_def)

lemma timerInv_playThen: "timerInv w \<Longrightarrow> timerInv (snd (playThen mid ext w))"
proof (cases "bitrateTimerRef w")
  case None
  assume "timerInv w"
  with None playThen_fresh [OF None, of mid ext] show ?thesis
    by (simp add: timerInv_def split: option.splits)
next
  case (Some h)
  assume "timerInv w"
  with Some playThen_stored [OF Some, of mid ext] show ?thesis
    by (simp add: timerInv_def split: option.splits)
qed

lemma timerInv_oncleanup: "timerInv w \<Longrightarrow> timerInv (snd (oncleanup w))"
proof -
  assume inv: "timerInv w"
  have "bitrateTimerRef (snd (oncleanup w)) = bitrateTimerRef (snd (clearBitrateTimer w)) \<and>
        intervals (snd (oncleanup w)) = intervals (snd (clearBitrateTimer w))"
    by (simp add: oncleanup_def split: option.splits)
  then show ?thesis using timerInv_clearBitrateTimer [OF inv] timerInv_frame by blast
qed

lemma timerInv_unmount: "timerInv w \<Longrightarrow> timerInv (snd (unmount w))"
proof -
  assume inv: "timerInv w"
  let ?w1 = "w\<lparr>mounted := False, videoRef := None\<rparr>"
  from inv have "timerInv ?w1" by (simp add: timerInv_def split: option.splits)
  then have "timerInv (snd (cleanupJanus ?w1))"
    by (rule timerInv_cleanupJanus)
  moreover have "bitrateTimerRef (snd (unmount w)) = bitrateTimerRef (snd (cleanupJanus ?w1)) \<and>
      intervals (snd (unmount w)) = intervals (snd (cleanupJanus ?w1))"
    by (simp add: unmount_def)
  ultimately show ?thesis using timerInv_frame by blast
qed

lemma timerInv_restartCleanupFired:
  "timerInv w \<Longrightarrow> timerInv (snd (restartCleanupFired env w))"
proof -
  assume inv: "timerInv w"
  let ?w1 = "snd (log ''Performing full Janus reconnection'' LInfo w)"
  have "timerInv ?w1" using inv by (simp add: timerInv_def split: option.splits)
  then have "timerInv (snd (cleanupJanus ?w1))" by (rule timerInv_cleanupJanus)
  moreover have "bitrateTimerRef (snd (restartCleanupFired env w)) =
        bitrateTimerRef (snd (cleanupJanus ?w1)) \<and>
      intervals (snd (restartCleanupFired env w)) = intervals (snd (cleanupJanus ?w1))"
    by (simp add: restartCleanupFired_def)
  ultimately show ?thesis using timerInv_frame by blast
qed

lemma timerInv_reconnectCleanupFired:
  "timerInv w \<Longrightarrow> timerInv (snd (reconnectCleanupFired h env w))"
proof -
  assume inv: "timerInv w"
  have "bitrateTimerRef (snd (reconnectCleanupFired h env w)) =
        bitrateTimerRef (snd (cleanupJanus w)) \<and>
      intervals (snd (reconnectCleanupFired h env w)) = intervals (snd (cleanupJanus w))"
    by (simp add: reconnectCleanupFired_def setTimeout_def Let_def)
  then show ?thesis using timerInv_cleanupJanus [OF inv] timerInv_frame by blast
qed

lemma timerInv_clearTimeout: "timerInv w \<Longrightarrow> timerInv (snd (clearTimeout h w))"
  by (simp add: timerInv_def split: option.splits)

lemma timerInv_runTimerAction:
  "timerInv w \<Longrightarrow> timerInv (snd (runTimerAction h a ext w))"
  by (cases a)
     (simp_all add: runTimerAction_def timerInv_restartCleanupFired
        timerInv_reconnectCleanupFired timerInv_frame [of "snd (playTrack x w)" w for x]
        timerInv_frame [of "snd (initJanusConnection e ext w)" w for e])

lemma timerInv_fireTimeout: "timerInv w \<Longrightarrow> timerInv (snd (fireTimeout h ext w))"
proof -
  assume inv: "timerInv w"
  show ?thesis
  proof (cases "map_of (timeouts w) h")
    case None
    then show ?thesis using inv by (simp add: fireTimeout_def)
  next
    case (Some a)
    have "timerInv (snd (runTimerAction h a ext (snd (clearTimeout h w))))"
      by (rule timerInv_runTimerAction, rule timerInv_clearTimeout, rule inv)
    moreover have "snd (fireTimeout h ext w) = snd (runTimerAction h a ext (snd (clearTimeout h w)))"
      using Some by (simp add: fireTimeout_def)
    ultimately show ?thesis by simp
  qed
qed

lemma timerInv_fireInterval: "timerInv w \<Longrightarrow> timerInv (snd (fireInterval h ext w))"
  by (cases "map_of (intervals w) h")
     (simp_all add: fireInterval_def timerInv_frame [of "snd (updateBitrate m ext w)" w for m])

lemma timerInv_handler: "timerInv w \<Longrightarrow> timerInv (snd (handler e w))"
proof -
  assume inv: "timerInv w"
  have frame: "\<And>w'. bitrateTimerRef w' = bitrateTimerRef w \<Longrightarrow> intervals w' = intervals w
      \<Longrightarrow> timerInv w'"
    using inv timerInv_frame by blast
  show ?thesis
  proof (cases e)
    case (EvRemoteTrack env t mid on)
    then show ?thesis using timerInv_onremotetrack [OF inv] by (simp add: handler_def)
  next
    case (EvPlayThen mid ext)
    then show ?thesis using timerInv_playThen [OF inv] by (simp add: handler_def)
  next
    case EvCleanup
    then show ?thesis using timerInv_oncleanup [OF inv] by (simp add: handler_def)
  next
    case EvMountCleanup
    then show ?thesis using timerInv_cleanupJanus [OF inv] by (simp add: handler_def)
  next
    case EvUnmount
    then show ?thesis using timerInv_unmount [OF inv] by (simp add: handler_def)
  next
    case (EvTimeout h ext)
    then show ?thesis using timerInv_fireTimeout [OF inv] by (simp add: handler_def)
  next
    case (EvInterval h ext)
    then show ?thesis using timerInv_fireInterval [OF inv] by (simp add: handler_def)
  qed (simp_all add: handler_def frame)
qed

lemma timerInv_step: "timerInv w \<Longrightarrow> timerInv (step w e)"
  using timerInv_handler [of w e] timerInv_frame [of "step w e" "snd (handler e w)"]
  by (simp add: step_frame)

lemma timerInv_run: "timerInv w \<Longrightarrow> timerInv (run w es)"
  by (induction es arbitrary: w) (simp_all add: run_def timerInv_step)

lemma timerInv_initialWorld: "timerInv (initialWorld v)"
  by (simp add: timerInv_def initialWorld_def)

text \<open>
  C4: after every sequence of events on a freshly mounted panel, at most one
  interval timer is live and the live timers are exactly the handle stored in
  \<^verbatim>\<open>bitrateTimerRef\<close>. The sampler is created only when no handle is stored: while
  one is stored, a resolved \<^verbatim>\<open>play()\<close> leaves the interval timers as they are. Each
  path that stops sampling (\<^verbatim>\<open>oncleanup\<close>, \<^verbatim>\<open>cleanupJanus\<close>, a video track going
  inactive) leaves no handle stored.
\<close>

theorem one_bitrate_timer:
  "length (intervals (run (initialWorld v) es)) \<le> 1 \<and>
   map fst (intervals (run (initialWorld v) es)) =
     (case bitrateTimerRef (run (initialWorld v) es) of None \<Rightarrow> [] | Some h \<Rightarrow> [h]) \<and>
   (case bitrateTimerRef (run (initialWorld v) es) of
      None \<Rightarrow> True
    | Some h \<Rightarrow>
        intervals (step (run (initialWorld v) es) (EvPlayThen mid ext)) =
          intervals (run (initialWorld v) es)) \<and>
   bitrateTimerRef (step (run (initialWorld v) es) EvCleanup) = None \<and>
   bitrateTimerRef (step (run (initialWorld v) es) EvMountCleanup) = None \<and>
   bitrateTimerRef (step (run (initialWorld v) es) (EvRemoteTrack env \<lparr>trackId = i, kind = ''video''\<rparr> m False)) = None"
proof -
  let ?w = "run (initialWorld v) es"
  have inv: "timerInv ?w" by (rule timerInv_run, rule timerInv_initialWorld)
  then have m: "map fst (intervals ?w) = (case bitrateTimerRef ?w of None \<Rightarrow> [] | Some h \<Rightarrow> [h])"
    by (simp add: timerInv_def split: option.splits)
  then have "length (map fst (intervals ?w)) \<le> 1" by (simp split: option.splits)
  then have l: "length (intervals ?w) \<le> 1" by simp
  have p: "(case bitrateTimerRef ?w of None \<Rightarrow> True
      | Some h \<Rightarrow> intervals (step ?w (EvPlayThen mid ext)) = intervals ?w)"
    using playThen_stored by (simp add: step_frame handler_def split: option.splits)
  have z: "\<And>h. bitrateTimerRef ?w = Some h \<Longrightarrow> h \<noteq> 0"
    using inv by (auto simp: timerInv_def)
  have c1: "bitrateTimerRef (step ?w EvCleanup) = None"
    using z by (auto simp: step_frame handler_def oncleanup_def clearBitrateTimer_timer split: option.splits)
  have c2: "bitrateTimerRef (step ?w EvMountCleanup) = None"
    using z by (auto simp: step_frame handler_def cleanupJanus_timer split: option.splits)
  have c3: "bitrateTimerRef (step ?w (EvRemoteTrack env \<lparr>trackId = i, kind = ''video''\<rparr> m False)) = None"
    using z by (auto simp: step_frame handler_def onremotetrack_def clearBitrateTimer_timer split: option.splits)
  show ?thesis using l m p c1 c2 c3 by simp
qed

lemma playing_eval:
  "intervals (run world0 playingEvents) = [(7, ''0'')]"
  "bitrateTimerRef (run world0 playingEvents) = Some 7"
  by code_simp+

theorem one_bitrate_timer_witness:
  "length (intervals (run world0 playingEvents)) \<le> 1 \<and>
   intervals (run world0 playingEvents) = [(7, ''0'')] \<and>
   bitrateTimerRef (run world0 playingEvents) = Some 7 \<and>
   intervals (step (run world0 playingEvents) (EvPlayThen ''1'' ext0)) = [(7, ''0'')] \<and>
   bitrateTimerRef (step (run world0 playingEvents) EvCleanup) = None"
  using one_bitrate_timer [of "\<lparr> srcObject = None, videoWidth = 0, videoHeight = 0 \<rparr>"
      playingEvents "''1''" ext0] playing_eval
  by (simp add: world0_def)

subsection \<open>Restart and teardown\<close>

text \<open>
  C5: both delayed continuations of a restart sequence are cancelled when the panel
  is torn down before they fire, for the manual restart as for the reconnect that a
  settings change triggers. The manual restart does not do this. On the connected
  panel: the restart control is clicked and the panel is unmounted before 500 ms
  have passed. After the unmount the component is gone, the element is detached and
  the session reference is cleared, yet the first continuation is still pending
  under its handle; when the browser runs it, it schedules the second; when that one
  runs, a new session is constructed for the unmounted panel (\<^verbatim>\<open>new Janus\<close> is the
  last call made) and stored in \<^verbatim>\<open>janusRef\<close>.
\<close>

theorem manual_restart_survives_unmount:
  "\<not> mounted restartUnmounted \<and>
   videoRef restartUnmounted = None \<and>
   janusRef restartUnmounted = None \<and>
   map_of (timeouts restartUnmounted) 6 = Some (RestartCleanup env0) \<and>
   map_of (timeouts restartStale) (timerCounter restartStale) = Some (RestartInit env0) \<and>
   \<not> mounted (step restartStale (EvTimeout (timerCounter restartStale) ext0)) \<and>
   janusRef (step restartStale (EvTimeout (timerCounter restartStale) ext0)) =
     Some sampleJanus \<and>
   last (effects (step restartStale (EvTimeout (timerCounter restartStale) ext0))) =
     JanusNew ''http://localhost:8088/janus''"
  by code_simp

text \<open>The sibling path: after the reconnect effect has run, unmounting leaves only
  scroll timeouts pending, whether the first continuation has fired or not.\<close>

lemma reconnect_effect_cancelled_example:
  "map snd (timeouts (run connectedWorld
     [EvReconnectEffect (env0\<lparr>envShouldReconnect := True\<rparr>), EvUnmount])) =
     [ScrollLogs, ScrollLogs, ScrollLogs, ScrollLogs, ScrollLogs]"
  "map snd (timeouts (run connectedWorld
     [EvReconnectEffect (env0\<lparr>envShouldReconnect := True\<rparr>), EvTimeout 6 ext0, EvUnmount])) =
     [ScrollLogs, ScrollLogs, ScrollLogs, ScrollLogs, ScrollLogs, ScrollLogs]"
  by code_simp+

lemma map_of_filter_excluded:
  "(\<And>v. \<not> Q (k, v)) \<Longrightarrow> map_of (filter Q xs) k = None"
  by (induction xs) auto

text \<open>The cleanup the reconnect effect returns does cancel both of its timeouts.\<close>

lemma runReconnectCleanup_cancels:
  assumes "reconnectCleanup w = Some h"
  shows "map_of (timeouts (snd (runReconnectCleanup w))) h = None"
    and "map_of (reconnectTimeoutVar w) h = Some h2 \<Longrightarrow> h2 \<noteq> 0 \<Longrightarrow>
           map_of (timeouts (snd (runReconnectCleanup w))) h2 = None"
  using assms
  by (auto simp: runReconnectCleanup_def map_of_filter_excluded split: option.splits)

end
